theory Spec2Isabelle
  imports Complex_Main "HOL-Library.Sublist"
begin

section \<open>Conventions of the embedding\<close>

text \<open>
  The theory embeds the adaptive nutrition pipeline of the repository:
  \<^verbatim>\<open>models.py\<close> (profile, biometric samples, food allowance),
  \<^verbatim>\<open>metabolism.py\<close> (BMR, TDEE, adaptive factors, goal calories),
  \<^verbatim>\<open>adaptation.py\<close> (trend analysis and meal adaptation) and
  \<^verbatim>\<open>ml_models.py\<close> (the meal optimizer).

  \<^item> Python numbers (\<^verbatim>\<open>int\<close> and \<^verbatim>\<open>float\<close> mixed by the arithmetic) are
    \<^typ>\<open>real\<close>: the arithmetic is exact, rounding of binary floating point is not modelled.
    Fields the dataclasses declare as \<^verbatim>\<open>int\<close> are \<^typ>\<open>int\<close>.
  \<^item> A \<^verbatim>\<open>datetime\<close> is an \<^typ>\<open>int\<close> counting microseconds; \<^verbatim>\<open>datetime.now()\<close>
    is the parameter \<open>now\<close> of the functions that read the clock.
  \<^item> \<^verbatim>\<open>Optional[t]\<close> is \<open>t option\<close>; a dict is a map \<open>string \<rightharpoonup> v\<close> or, where its
    keys are fixed by the code that builds it, a record.
  \<^item> A raised exception is the left injection of a sum, \<open>py_error + 'a\<close>.
  \<^item> Strings are ASCII \<^typ>\<open>string\<close>s; \<^verbatim>\<open>str.lower\<close> maps \<open>A\<close>..\<open>Z\<close> to \<open>a\<close>..\<open>z\<close>.
  \<^item> A leading underscore of a Python name is dropped (\<^verbatim>\<open>_mifflin_st_jeor\<close> is
    \<open>mifflin_st_jeor\<close>).
\<close>

datatype py_error = KeyError string | ZeroDivisionError | IndexError

definition lower_char :: "char \<Rightarrow> char" where
  "lower_char c =
     (let n = (of_char c :: nat)
      in if 65 \<le> n \<and> n \<le> 90 then char_of (n + 32) else c)"

definition lower :: "string \<Rightarrow> string" where
  "lower s = map lower_char s"

text \<open>\<^verbatim>\<open>d.get(key, default)\<close> on a dict or on an optional field.\<close>

definition get_default :: "'a option \<Rightarrow> 'a \<Rightarrow> 'a" where
  "get_default v d = (case v of None \<Rightarrow> d | Some x \<Rightarrow> x)"

text \<open>\<^verbatim>\<open>xs[-n:]\<close>: the last \<open>n\<close> elements, the whole list when it is shorter.\<close>

definition last_n :: "nat \<Rightarrow> 'a list \<Rightarrow> 'a list" where
  "last_n n xs = drop (length xs - n) xs"

subsection \<open>numpy reductions\<close>

definition np_mean :: "real list \<Rightarrow> real" where
  "np_mean xs = sum_list xs / real (length xs)"

definition np_var :: "real list \<Rightarrow> real" where
  "np_var xs = np_mean (map (\<lambda>x. (x - np_mean xs)\<^sup>2) xs)"

text \<open>\<^verbatim>\<open>np.std\<close> with its default \<^verbatim>\<open>ddof=0\<close>: the population standard deviation.\<close>

definition np_std :: "real list \<Rightarrow> real" where
  "np_std xs = sqrt (np_var xs)"

section \<open>models.py\<close>

datatype ActivityLevel =
  SEDENTARY | LIGHTLY_ACTIVE | MODERATELY_ACTIVE | VERY_ACTIVE | EXTREMELY_ACTIVE

fun activity_value :: "ActivityLevel \<Rightarrow> real" where
  "activity_value SEDENTARY = 1.2"
| "activity_value LIGHTLY_ACTIVE = 1.375"
| "activity_value MODERATELY_ACTIVE = 1.55"
| "activity_value VERY_ACTIVE = 1.725"
| "activity_value EXTREMELY_ACTIVE = 1.9"

datatype DietaryRestriction =
  VEGETARIAN | VEGAN | PESCATARIAN | KETO | PALEO | LOW_CARB | LOW_FAT | GLUTEN_FREE | DAIRY_FREE

record biometric_data =
  timestamp :: int
  steps :: "int option"
  heart_rate :: "int option"
  sleep_hours :: "real option"
  glucose_mg_dl :: "real option"
  blood_pressure_systolic :: "int option"
  blood_pressure_diastolic :: "int option"
  bio_weight_kg :: "real option"
  body_fat_percentage :: "real option"

text \<open>The dataclass constructor \<^verbatim>\<open>BiometricData(timestamp=t)\<close>: every other field defaults to \<^verbatim>\<open>None\<close>.\<close>

definition BiometricData :: "int \<Rightarrow> biometric_data" where
  "BiometricData t =
     \<lparr>timestamp = t, steps = None, heart_rate = None, sleep_hours = None,
      glucose_mg_dl = None, blood_pressure_systolic = None,
      blood_pressure_diastolic = None, bio_weight_kg = None, body_fat_percentage = None\<rparr>"

record dietary_preferences =
  allergies :: "string list"
  dislikes :: "string list"
  dietary_restrictions :: "DietaryRestriction list"

text \<open>
  \<^verbatim>\<open>UserProfile\<close>, with the fields the embedded functions read. (The name, budget, goals
  and histories of the dataclass are read by none of them.)
\<close>

record user_profile =
  age :: int
  sex :: string
  weight_kg :: real
  height_cm :: real
  activity_level :: ActivityLevel
  preferences :: dietary_preferences

text \<open>\<^verbatim>\<open>UserProfile.calculate_bmr\<close> and \<^verbatim>\<open>UserProfile.calculate_tdee\<close>.\<close>

definition calculate_bmr_profile :: "user_profile \<Rightarrow> real" where
  "calculate_bmr_profile self =
     (if lower (sex self) = ''male''
      then 10 * weight_kg self + 6.25 * height_cm self - 5 * real_of_int (age self) + 5
      else 10 * weight_kg self + 6.25 * height_cm self - 5 * real_of_int (age self) - 161)"

definition calculate_tdee_profile :: "user_profile \<Rightarrow> real" where
  "calculate_tdee_profile self = calculate_bmr_profile self * activity_value (activity_level self)"

section \<open>metabolism.py\<close>

datatype BMRFormula = MIFFLIN_ST_JEOR | HARRIS_BENEDICT | KATCH_MCARDLE | CUNNINGHAM

definition mifflin_st_jeor :: "user_profile \<Rightarrow> real" where
  "mifflin_st_jeor profile =
     (if lower (sex profile) = ''male''
      then 10 * weight_kg profile + 6.25 * height_cm profile - 5 * real_of_int (age profile) + 5
      else 10 * weight_kg profile + 6.25 * height_cm profile - 5 * real_of_int (age profile) - 161)"

definition harris_benedict :: "user_profile \<Rightarrow> real" where
  "harris_benedict profile =
     (if lower (sex profile) = ''male''
      then 88.362 + (13.397 * weight_kg profile) + (4.799 * height_cm profile)
             - (5.677 * real_of_int (age profile))
      else 447.593 + (9.247 * weight_kg profile) + (3.098 * height_cm profile)
             - (4.330 * real_of_int (age profile)))"

definition katch_mcardle :: "user_profile \<Rightarrow> real \<Rightarrow> real" where
  "katch_mcardle profile bf =
     (let lean_mass_kg = weight_kg profile * (1 - bf / 100) in 370 + (21.6 * lean_mass_kg))"

definition cunningham :: "user_profile \<Rightarrow> real \<Rightarrow> real" where
  "cunningham profile bf =
     (let lean_mass_kg = weight_kg profile * (1 - bf / 100) in 500 + (22 * lean_mass_kg))"

fun calculate_bmr :: "user_profile \<Rightarrow> BMRFormula \<Rightarrow> real option \<Rightarrow> real" where
  "calculate_bmr profile MIFFLIN_ST_JEOR bf = mifflin_st_jeor profile"
| "calculate_bmr profile HARRIS_BENEDICT bf = harris_benedict profile"
| "calculate_bmr profile KATCH_MCARDLE bf =
     (case bf of None \<Rightarrow> mifflin_st_jeor profile | Some f \<Rightarrow> katch_mcardle profile f)"
| "calculate_bmr profile CUNNINGHAM bf =
     (case bf of None \<Rightarrow> mifflin_st_jeor profile | Some f \<Rightarrow> cunningham profile f)"

text \<open>
  \<^verbatim>\<open>sorted(xs, key=lambda x: x.timestamp)\<close> is a stable ascending sort, and with
  \<^verbatim>\<open>reverse=True\<close> a stable descending one (equal keys keep their input order).
\<close>

definition sorted_by_timestamp :: "biometric_data list \<Rightarrow> biometric_data list" where
  "sorted_by_timestamp xs = sort_key timestamp xs"

definition sorted_by_timestamp_reverse :: "biometric_data list \<Rightarrow> biometric_data list" where
  "sorted_by_timestamp_reverse xs = rev (sort_key timestamp (rev xs))"

text \<open>
  \<^verbatim>\<open>_estimate_body_fat_percentage\<close>. The argument is \<^verbatim>\<open>None\<close> or a list; both
  \<^verbatim>\<open>None\<close> and \<^verbatim>\<open>[]\<close> are falsy. The BMI divides by the squared height in metres,
  which raises \<^verbatim>\<open>ZeroDivisionError\<close> for a height of zero.
\<close>

definition truthy :: "'a list option \<Rightarrow> bool" where
  "truthy xs = (case xs of None \<Rightarrow> False | Some ys \<Rightarrow> ys \<noteq> [])"

definition estimate_body_fat_percentage ::
  "user_profile \<Rightarrow> biometric_data list option \<Rightarrow> py_error + real" where
  "estimate_body_fat_percentage profile recent_biometrics =
     (case (if truthy recent_biometrics
            then List.map_filter body_fat_percentage
                   (sorted_by_timestamp_reverse (get_default recent_biometrics []))
            else []) of
        bf # _ \<Rightarrow> Inr bf
      | [] \<Rightarrow>
         (if (height_cm profile / 100)\<^sup>2 = 0 then Inl ZeroDivisionError
          else
            (let bmi = weight_kg profile / ((height_cm profile / 100)\<^sup>2);
                 body_fat =
                   (if lower (sex profile) = ''male''
                    then (1.20 * bmi) + (0.23 * real_of_int (age profile)) - 16.2
                    else (1.20 * bmi) + (0.23 * real_of_int (age profile)) - 5.4)
             in Inr (max 5 (min body_fat 50)))))"

record adaptive_factors =
  sleep_quality :: real
  stress_level :: real
  glucose_regulation :: real
  activity_consistency :: real
  recovery_status :: real

text \<open>\<^verbatim>\<open>self.adaptive_factors\<close> as \<^verbatim>\<open>__init__\<close> sets it (nothing assigns to it afterwards).\<close>

definition default_adaptive_factors :: adaptive_factors where
  "default_adaptive_factors =
     \<lparr>sleep_quality = 1.0, stress_level = 1.0, glucose_regulation = 1.0,
      activity_consistency = 1.0, recovery_status = 1.0\<rparr>"

definition calculate_sleep_factor :: "biometric_data list \<Rightarrow> real" where
  "calculate_sleep_factor biometrics =
     (let sleep = List.map_filter sleep_hours (last_n 7 biometrics)
      in if sleep = [] then 1.0
         else
           (let avg_sleep = np_mean sleep
            in if 7 \<le> avg_sleep \<and> avg_sleep \<le> 9 then 1.0
               else if avg_sleep < 6 then 0.95 - (6 - avg_sleep) * 0.02
               else if avg_sleep > 10 then 0.98
               else 1.0))"

definition calculate_glucose_factor :: "biometric_data list \<Rightarrow> real" where
  "calculate_glucose_factor biometrics =
     (let glucose_readings = List.map_filter glucose_mg_dl (last_n 5 biometrics)
      in if glucose_readings = [] then 1.0
         else
           (let avg_glucose = np_mean glucose_readings
            in if avg_glucose > 140 then 0.92
               else if avg_glucose > 120 then 0.96
               else if 70 \<le> avg_glucose \<and> avg_glucose \<le> 100 then 1.02
               else 1.0))"

definition calculate_activity_factor :: "biometric_data list \<Rightarrow> real" where
  "calculate_activity_factor biometrics =
     (let step_values = map real_of_int (List.map_filter steps (last_n 7 biometrics))
      in if length step_values < 3 then 1.0
         else
           (let avg_steps = np_mean step_values;
                step_variability = (if avg_steps > 0 then np_std step_values / avg_steps else 0)
            in if avg_steps > 10000 \<and> step_variability < 0.3 then 1.05
               else if avg_steps > 8000 \<and> step_variability < 0.4 then 1.02
               else if avg_steps < 3000 then 0.95
               else 1.0))"

definition calculate_stress_factor :: "biometric_data list \<Rightarrow> real" where
  "calculate_stress_factor biometrics =
     (let hr_readings = map real_of_int (List.map_filter heart_rate (last_n 5 biometrics))
      in if length hr_readings < 3 then 1.0
         else
           (let avg_hr = np_mean hr_readings;
                hr_variability = np_std hr_readings
            in if avg_hr > 80 \<or> hr_variability > 15 then 0.96
               else if 60 \<le> avg_hr \<and> avg_hr \<le> 70 \<and> hr_variability < 10 then 1.02
               else 1.0))"

text \<open>
  The body of the loop of \<^verbatim>\<open>_calculate_recovery_factor\<close>: the pair
  \<open>(score, indicators)\<close> of one sample.
\<close>

definition recovery_score :: "biometric_data \<Rightarrow> nat \<times> nat" where
  "recovery_score bio =
     (let (score, indicators) = (0, 0);
          (score, indicators) =
            (case sleep_hours bio of
               None \<Rightarrow> (score, indicators)
             | Some s \<Rightarrow> (if 7 \<le> s \<and> s \<le> 9 then score + 1 else score, indicators + 1));
          (score, indicators) =
            (case heart_rate bio of
               None \<Rightarrow> (score, indicators)
             | Some h \<Rightarrow> (if 60 \<le> h \<and> h \<le> 75 then score + 1 else score, indicators + 1));
          (score, indicators) =
            (case steps bio of
               None \<Rightarrow> (score, indicators)
             | Some n \<Rightarrow> (if n \<ge> 5000 then score + 1 else score, indicators + 1))
      in (score, indicators))"

definition calculate_recovery_factor :: "biometric_data list \<Rightarrow> real" where
  "calculate_recovery_factor biometrics =
     (let recent = (if length biometrics \<ge> 3 then take 3 biometrics else biometrics);
          recovery_indicators =
            map (\<lambda>(score, indicators). real score / real indicators)
              (filter (\<lambda>(score, indicators). indicators > 0) (map recovery_score recent))
      in if recovery_indicators = [] then 1.0
         else
           (let avg_recovery = np_mean recovery_indicators
            in if avg_recovery > 0.8 then 1.03
               else if avg_recovery > 0.6 then 1.01
               else if avg_recovery < 0.3 then 0.94
               else 1.0))"

definition calculate_adaptive_factors ::
  "user_profile \<Rightarrow> biometric_data list \<Rightarrow> adaptive_factors" where
  "calculate_adaptive_factors profile recent_biometrics =
     (let factors = default_adaptive_factors
      in if recent_biometrics = [] then factors
         else
           (let sorted_biometrics = sorted_by_timestamp_reverse recent_biometrics;
                factors = factors\<lparr>sleep_quality := calculate_sleep_factor sorted_biometrics\<rparr>;
                factors = factors\<lparr>glucose_regulation := calculate_glucose_factor sorted_biometrics\<rparr>;
                factors = factors\<lparr>activity_consistency := calculate_activity_factor sorted_biometrics\<rparr>;
                factors = factors\<lparr>stress_level := calculate_stress_factor sorted_biometrics\<rparr>;
                factors = factors\<lparr>recovery_status := calculate_recovery_factor sorted_biometrics\<rparr>
            in factors))"

text \<open>\<^verbatim>\<open>np.prod(list(adaptive_factors.values()))\<close>, in the insertion order of the dict.\<close>

definition factors_product :: "adaptive_factors \<Rightarrow> real" where
  "factors_product f =
     sleep_quality f * stress_level f * glucose_regulation f
       * activity_consistency f * recovery_status f"

text \<open>
  The dict \<^verbatim>\<open>calculate_tdee\<close> returns; the key \<^verbatim>\<open>adaptive_multiplier\<close> is present only
  on the adaptive path.
\<close>

record tdee_data =
  bmr :: real
  base_tdee :: real
  adaptive_tdee :: real
  tdee_factors :: adaptive_factors
  adaptive_multiplier :: "real option"

definition calculate_tdee ::
  "user_profile \<Rightarrow> biometric_data list option \<Rightarrow> bool \<Rightarrow> py_error + tdee_data" where
  "calculate_tdee profile recent_biometrics adaptive =
     (case estimate_body_fat_percentage profile recent_biometrics of
        Inl e \<Rightarrow> Inl e
      | Inr body_fat \<Rightarrow>
         (let b = calculate_bmr profile MIFFLIN_ST_JEOR (Some body_fat);
              base = b * activity_value (activity_level profile)
          in if \<not> adaptive \<or> \<not> truthy recent_biometrics
             then Inr \<lparr>bmr = b, base_tdee = base, adaptive_tdee = base,
                       tdee_factors = default_adaptive_factors, adaptive_multiplier = None\<rparr>
             else
               (let factors = calculate_adaptive_factors profile (get_default recent_biometrics []);
                    multiplier = factors_product factors
                in Inr \<lparr>bmr = b, base_tdee = base, adaptive_tdee = base * multiplier,
                         tdee_factors = factors, adaptive_multiplier = Some multiplier\<rparr>)))"

text \<open>
  The dict \<^verbatim>\<open>calculate_calorie_needs_by_goal\<close> returns. The argument \<^verbatim>\<open>goal\<close> is
  accepted and never read: all three targets are always computed.
\<close>

record calorie_needs =
  maintenance :: real
  weight_loss :: real
  weight_gain :: real
  min_safe_calories :: real
  max_safe_calories :: real
  tdee_breakdown :: tdee_data

definition calculate_calorie_needs_by_goal ::
  "user_profile \<Rightarrow> string \<Rightarrow> real \<Rightarrow> py_error + calorie_needs" where
  "calculate_calorie_needs_by_goal profile goal rate_kg_per_week =
     (case calculate_tdee profile None True of
        Inl e \<Rightarrow> Inl e
      | Inr td \<Rightarrow>
         (let base_calories = adaptive_tdee td;
              calories_per_kg = 7700;
              daily_calorie_adjustment = (rate_kg_per_week * calories_per_kg) / 7;
              maintain = base_calories;
              lose = base_calories - \<bar>daily_calorie_adjustment\<bar>;
              gain = base_calories + \<bar>daily_calorie_adjustment\<bar>;
              min_calories = max (calculate_bmr_profile profile * 1.1) 1200;
              max_calories = base_calories * 1.5;
              clamp = (\<lambda>g. max min_calories (min g max_calories))
          in Inr \<lparr>maintenance = clamp maintain, weight_loss = clamp lose,
                   weight_gain = clamp gain, min_safe_calories = min_calories,
                   max_safe_calories = max_calories, tdee_breakdown = td\<rparr>))"

section \<open>config.py\<close>

definition HIGH_GLUCOSE_THRESHOLD :: real where "HIGH_GLUCOSE_THRESHOLD = 140"
definition LOW_ACTIVITY_THRESHOLD :: real where "LOW_ACTIVITY_THRESHOLD = 5000"
definition POOR_SLEEP_THRESHOLD :: real where "POOR_SLEEP_THRESHOLD = 6"

text \<open>\<^verbatim>\<open>Config.MEAL_CALORIE_DISTRIBUTION\<close>.\<close>

definition MEAL_CALORIE_DISTRIBUTION :: "string \<rightharpoonup> real" where
  "MEAL_CALORIE_DISTRIBUTION =
     [''breakfast'' \<mapsto> 0.25, ''lunch'' \<mapsto> 0.40, ''dinner'' \<mapsto> 0.35]"

section \<open>adaptation.py: the trend analyzer\<close>

datatype AdaptationReason =
  HIGH_GLUCOSE | LOW_ACTIVITY | POOR_SLEEP | HIGH_STRESS | WEIGHT_CHANGE
  | ILLNESS_RECOVERY | EXERCISE_SESSION | MEAL_TIMING

text \<open>
  The alert messages are f-strings; an alert is modelled by its template and the number
  it formats (the formatting of the number to text is not modelled).
\<close>

datatype alert =
  HighGlucoseReading real
  | LowAverageGlucose real
  | LowActivityDetected real
  | InconsistentActivity
  | InsufficientSleep real
  | SignificantSleepDebt real
  | ElevatedHeartRate real
  | HighHeartRateVariability
  | SignificantWeightChange string real

text \<open>
  The dict one \<^verbatim>\<open>_analyze_*_trends\<close> returns: its numeric entries by key (absent on the
  \<^verbatim>\<open>no_data\<close> returns), and the entries \<^verbatim>\<open>status\<close>, \<^verbatim>\<open>trend\<close>, \<^verbatim>\<open>alerts\<close>
  and \<^verbatim>\<open>adaptations\<close>.
\<close>

record trend_info =
  numbers :: "string \<rightharpoonup> real"
  status :: "string option"
  trend :: "string option"
  alerts :: "alert list"
  adaptations :: "AdaptationReason list"

record thresholds =
  glucose_high :: real
  glucose_low :: real
  steps_low :: real
  steps_high :: real
  sleep_poor :: real
  sleep_excessive :: real
  heart_rate_high :: real
  heart_rate_low :: real
  weight_change_significant :: real

definition adaptation_thresholds :: thresholds where
  "adaptation_thresholds =
     \<lparr>glucose_high = HIGH_GLUCOSE_THRESHOLD, glucose_low = 70,
      steps_low = LOW_ACTIVITY_THRESHOLD, steps_high = 15000,
      sleep_poor = POOR_SLEEP_THRESHOLD, sleep_excessive = 10,
      heart_rate_high = 100, heart_rate_low = 50, weight_change_significant = 2.0\<rparr>"

text \<open>\<^verbatim>\<open>np.max\<close> and \<^verbatim>\<open>np.min\<close>; the code calls them on non-empty lists only.\<close>

fun np_max :: "real list \<Rightarrow> real" where
  "np_max [] = 0"
| "np_max (x # xs) = fold max xs x"

fun np_min :: "real list \<Rightarrow> real" where
  "np_min [] = 0"
| "np_min (x # xs) = fold min xs x"

text \<open>
  The slope \<^verbatim>\<open>np.polyfit(np.arange(len(values)), values, 1)[0]\<close> of the least-squares
  line through the points \<open>(i, values[i])\<close>, in closed form.
\<close>

definition polyfit_slope :: "real list \<Rightarrow> real" where
  "polyfit_slope vs =
     (let xs = map real [0 ..< length vs];
          xm = np_mean xs;
          ym = np_mean vs
      in sum_list (map (\<lambda>(x, y). (x - xm) * (y - ym)) (zip xs vs))
           / sum_list (map (\<lambda>x. (x - xm)\<^sup>2) xs))"

definition calculate_trend_direction :: "real list \<Rightarrow> string" where
  "calculate_trend_direction vs =
     (if length vs < 2 then ''stable''
      else
        (let slope = polyfit_slope vs
         in if slope > 0.1 then ''increasing''
            else if slope < - 0.1 then ''decreasing''
            else ''stable''))"

definition glucose_status_classification :: "real \<Rightarrow> string" where
  "glucose_status_classification avg_glucose =
     (if avg_glucose < 70 then ''low''
      else if 70 \<le> avg_glucose \<and> avg_glucose \<le> 100 then ''normal''
      else if 100 < avg_glucose \<and> avg_glucose \<le> 125 then ''elevated''
      else ''high'')"

definition activity_status_classification :: "real \<Rightarrow> string" where
  "activity_status_classification avg_steps =
     (if avg_steps < 3000 then ''sedentary''
      else if 3000 \<le> avg_steps \<and> avg_steps \<le> 7000 then ''low''
      else if 7000 < avg_steps \<and> avg_steps \<le> 12000 then ''moderate''
      else ''high'')"

definition sleep_status_classification :: "real \<Rightarrow> string" where
  "sleep_status_classification avg_sleep =
     (if avg_sleep < 6 then ''insufficient''
      else if 6 \<le> avg_sleep \<and> avg_sleep \<le> 7 then ''borderline''
      else if 7 < avg_sleep \<and> avg_sleep \<le> 9 then ''adequate''
      else ''excessive'')"

definition heart_rate_status_classification :: "real \<Rightarrow> string" where
  "heart_rate_status_classification avg_hr =
     (if avg_hr < 60 then ''low''
      else if 60 \<le> avg_hr \<and> avg_hr \<le> 80 then ''normal''
      else if 80 < avg_hr \<and> avg_hr \<le> 100 then ''elevated''
      else ''high'')"

definition no_data :: "string \<Rightarrow> trend_info" where
  "no_data s =
     \<lparr>numbers = Map.empty, status = Some s, trend = None, alerts = [], adaptations = []\<rparr>"

text \<open>
  The list comprehensions that open \<^verbatim>\<open>_analyze_glucose_trends\<close> and
  \<^verbatim>\<open>_analyze_heart_rate_trends\<close>: the values present, in the order of the samples.
\<close>

definition glucose_values :: "biometric_data list \<Rightarrow> real list" where
  "glucose_values data = List.map_filter glucose_mg_dl data"

definition hr_values :: "biometric_data list \<Rightarrow> real list" where
  "hr_values data = map real_of_int (List.map_filter heart_rate data)"

definition analyze_glucose_trends :: "biometric_data list \<Rightarrow> trend_info" where
  "analyze_glucose_trends data =
     (let glucose_values = glucose_values data
      in if glucose_values = [] then no_data ''no_data''
         else
           (let avg_glucose = np_mean glucose_values;
                max_glucose = np_max glucose_values;
                trend_direction = calculate_trend_direction glucose_values;
                (alerts, adaptations) = ([], []);
                (alerts, adaptations) =
                  (if max_glucose > glucose_high adaptation_thresholds
                   then (alerts @ [HighGlucoseReading max_glucose], adaptations @ [HIGH_GLUCOSE])
                   else (alerts, adaptations));
                alerts =
                  (if avg_glucose < glucose_low adaptation_thresholds
                   then alerts @ [LowAverageGlucose avg_glucose] else alerts)
            in \<lparr>numbers = [''average'' \<mapsto> avg_glucose, ''maximum'' \<mapsto> max_glucose],
                status = Some (glucose_status_classification avg_glucose),
                trend = Some trend_direction,
                alerts = alerts, adaptations = adaptations\<rparr>))"

definition analyze_activity_trends :: "biometric_data list \<Rightarrow> trend_info" where
  "analyze_activity_trends data =
     (let step_values = map real_of_int (List.map_filter steps data)
      in if step_values = [] then no_data ''no_data''
         else
           (let avg_steps = np_mean step_values;
                min_steps = np_min step_values;
                consistency = 1 - (np_std step_values / max avg_steps 1);
                (alerts, adaptations) = ([], []);
                (alerts, adaptations) =
                  (if avg_steps < steps_low adaptation_thresholds
                   then (alerts @ [LowActivityDetected avg_steps], adaptations @ [LOW_ACTIVITY])
                   else (alerts, adaptations));
                alerts = (if consistency < 0.5 then alerts @ [InconsistentActivity] else alerts)
            in \<lparr>numbers = [''average_steps'' \<mapsto> avg_steps, ''minimum_steps'' \<mapsto> min_steps,
                           ''consistency_score'' \<mapsto> consistency],
                status = Some (activity_status_classification avg_steps),
                trend = None,
                alerts = alerts, adaptations = adaptations\<rparr>))"

definition analyze_sleep_trends :: "biometric_data list \<Rightarrow> trend_info" where
  "analyze_sleep_trends data =
     (let sleep_values = List.map_filter sleep_hours data
      in if sleep_values = [] then no_data ''no_data''
         else
           (let avg_sleep = np_mean sleep_values;
                min_sleep = np_min sleep_values;
                sleep_debt = max 0 (7.5 - avg_sleep) * real (length sleep_values);
                (alerts, adaptations) = ([], []);
                (alerts, adaptations) =
                  (if avg_sleep < sleep_poor adaptation_thresholds
                   then (alerts @ [InsufficientSleep avg_sleep], adaptations @ [POOR_SLEEP])
                   else (alerts, adaptations));
                alerts = (if sleep_debt > 5 then alerts @ [SignificantSleepDebt sleep_debt] else alerts)
            in \<lparr>numbers = [''average_hours'' \<mapsto> avg_sleep, ''minimum_hours'' \<mapsto> min_sleep,
                           ''sleep_debt'' \<mapsto> sleep_debt],
                status = Some (sleep_status_classification avg_sleep),
                trend = None,
                alerts = alerts, adaptations = adaptations\<rparr>))"

definition analyze_heart_rate_trends :: "biometric_data list \<Rightarrow> trend_info" where
  "analyze_heart_rate_trends data =
     (let hr_values = hr_values data
      in if hr_values = [] then no_data ''no_data''
         else
           (let avg_hr = np_mean hr_values;
                hr_variability = np_std hr_values;
                trend = calculate_trend_direction hr_values;
                (alerts, adaptations) = ([], []);
                (alerts, adaptations) =
                  (if avg_hr > heart_rate_high adaptation_thresholds
                   then (alerts @ [ElevatedHeartRate avg_hr], adaptations @ [HIGH_STRESS])
                   else (alerts, adaptations));
                (alerts, adaptations) =
                  (if hr_variability > 20
                   then (alerts @ [HighHeartRateVariability], adaptations @ [HIGH_STRESS])
                   else (alerts, adaptations))
            in \<lparr>numbers = [''average_bpm'' \<mapsto> avg_hr, ''variability'' \<mapsto> hr_variability],
                status = Some (heart_rate_status_classification avg_hr),
                trend = Some trend,
                alerts = alerts, adaptations = adaptations\<rparr>))"

definition analyze_weight_trends :: "biometric_data list \<Rightarrow> trend_info" where
  "analyze_weight_trends data =
     (let weight_values = List.map_filter bio_weight_kg data
      in if length weight_values < 2 then no_data ''insufficient_data''
         else
           (let weight_change = last weight_values - hd weight_values;
                trend = calculate_trend_direction weight_values;
                (alerts, adaptations) = ([], []);
                (alerts, adaptations) =
                  (if \<bar>weight_change\<bar> > weight_change_significant adaptation_thresholds
                   then
                     (let direction = (if weight_change > 0 then ''gained'' else ''lost'')
                      in (alerts @ [SignificantWeightChange direction \<bar>weight_change\<bar>],
                          adaptations @ [WEIGHT_CHANGE]))
                   else (alerts, adaptations))
            in \<lparr>numbers = [''total_change_kg'' \<mapsto> weight_change,
                           ''rate_per_day'' \<mapsto>
                              weight_change / real (max (length weight_values) 1)],
                status = None,
                trend = Some trend,
                alerts = alerts, adaptations = adaptations\<rparr>))"

text \<open>
  The dict \<^verbatim>\<open>analyze_biometric_trends\<close> returns (without its entry
  \<^verbatim>\<open>analysis_period\<close>, a formatted string nothing reads); the early returns have no
  \<^verbatim>\<open>data_points\<close>.
\<close>

record analysis =
  trends :: "string \<rightharpoonup> trend_info"
  all_alerts :: "alert list"
  adaptations_needed :: "AdaptationReason list"
  data_points :: "nat option"

definition empty_analysis :: analysis where
  "empty_analysis =
     \<lparr>trends = Map.empty, all_alerts = [], adaptations_needed = [], data_points = None\<rparr>"

text \<open>
  One block of \<^verbatim>\<open>analyze_biometric_trends\<close>: store the metric's result under its key and,
  when it has alerts, extend both running lists.
\<close>

definition record_trend :: "string \<Rightarrow> trend_info \<Rightarrow> analysis \<Rightarrow> analysis" where
  "record_trend key info a =
     (let a = a\<lparr>trends := (trends a)(key \<mapsto> info)\<rparr>
      in if alerts info \<noteq> []
         then a\<lparr>all_alerts := all_alerts a @ alerts info,
                 adaptations_needed := adaptations_needed a @ adaptations info\<rparr>
         else a)"

text \<open>\<^verbatim>\<open>timedelta(days=n)\<close> in microseconds.\<close>

definition timedelta_days :: "int \<Rightarrow> int" where
  "timedelta_days n = n * 86400000000"

text \<open>
  The local \<^verbatim>\<open>recent_data\<close> of \<^verbatim>\<open>analyze_biometric_trends\<close>: the samples sorted by
  timestamp and filtered to the last \<open>days_back\<close> days.
\<close>

definition recent_data :: "int \<Rightarrow> biometric_data list \<Rightarrow> int \<Rightarrow> biometric_data list" where
  "recent_data now biometric_data days_back =
     (let sorted_data = sorted_by_timestamp biometric_data;
          cutoff_date = now - timedelta_days days_back
      in filter (\<lambda>d. timestamp d \<ge> cutoff_date) sorted_data)"

definition analyze_biometric_trends :: "int \<Rightarrow> biometric_data list \<Rightarrow> int \<Rightarrow> analysis" where
  "analyze_biometric_trends now biometric_data days_back =
     (if biometric_data = [] then empty_analysis
      else
        (let recent_data = recent_data now biometric_data days_back
         in if recent_data = [] then empty_analysis
            else
              (let a = empty_analysis;
                   a = record_trend ''glucose'' (analyze_glucose_trends recent_data) a;
                   a = record_trend ''activity'' (analyze_activity_trends recent_data) a;
                   a = record_trend ''sleep'' (analyze_sleep_trends recent_data) a;
                   a = record_trend ''heart_rate'' (analyze_heart_rate_trends recent_data) a;
                   a = record_trend ''weight'' (analyze_weight_trends recent_data) a
               in a\<lparr>data_points := Some (length recent_data)\<rparr>)))"

section \<open>adaptation.py: the meal adaptation engine\<close>

text \<open>
  A meal is the dict the optimizer builds. The adaptation engine reads and writes only the
  entries \<^verbatim>\<open>calories\<close>, \<^verbatim>\<open>protein\<close>, \<^verbatim>\<open>carbs\<close> and \<^verbatim>\<open>fat\<close>, which hold numbers and
  any of which may be absent from a dict a caller passes; they are the map \<open>nutrients\<close>.
  The entries \<^verbatim>\<open>meal_type\<close> and \<^verbatim>\<open>items\<close> are carried along.
\<close>

record meal =
  meal_type :: string
  items :: "string list"
  nutrients :: "string \<rightharpoonup> real"

text \<open>\<^verbatim>\<open>key in meal\<close>, \<^verbatim>\<open>meal.get(key, 0)\<close>, \<^verbatim>\<open>meal[key] = v\<close> and \<^verbatim>\<open>meal[key] *= f\<close>.\<close>

definition has_key :: "meal \<Rightarrow> string \<Rightarrow> bool" where
  "has_key m k = (nutrients m k \<noteq> None)"

definition meal_get :: "meal \<Rightarrow> string \<Rightarrow> real \<Rightarrow> real" where
  "meal_get m k d = get_default (nutrients m k) d"

definition setitem :: "meal \<Rightarrow> string \<Rightarrow> real \<Rightarrow> meal" where
  "setitem m k v = m\<lparr>nutrients := (nutrients m)(k \<mapsto> v)\<rparr>"

definition imul :: "meal \<Rightarrow> string \<Rightarrow> real \<Rightarrow> py_error + meal" where
  "imul m k f =
     (case nutrients m k of None \<Rightarrow> Inl (KeyError k) | Some v \<Rightarrow> Inr (setitem m k (v * f)))"

text \<open>
  The explanation strings are f-strings as well: an explanation is its template and the
  numbers it formats; \<open>NoExplanation\<close> is the empty string.
\<close>

datatype explanation =
  ReducedCarbohydrates real real
  | ReducedPortionsLowActivity real
  | IncreasedProteinPoorSleep real
  | AdjustedForStress real
  | ReducedPortionsWeightGain real
  | IncreasedPortionsWeightLoss real
  | NoExplanation

text \<open>\<^verbatim>\<open>analysis['trends'][metric]\<close> and \<^verbatim>\<open>info[key]\<close>; a missing key raises.\<close>

definition trend_of :: "analysis \<Rightarrow> string \<Rightarrow> py_error + trend_info" where
  "trend_of a metric =
     (case trends a metric of None \<Rightarrow> Inl (KeyError metric) | Some info \<Rightarrow> Inr info)"

definition number_of :: "trend_info \<Rightarrow> string \<Rightarrow> py_error + real" where
  "number_of info key =
     (case numbers info key of None \<Rightarrow> Inl (KeyError key) | Some v \<Rightarrow> Inr v)"

text \<open>
  \<^verbatim>\<open>for nutrient in ['calories', 'protein', 'carbs', 'fat']: if nutrient in meal:
  meal[nutrient] *= factor\<close>, the loop body shared by three strategies. Each product is the
  exact real product, where the source rounds it to a float.
\<close>

definition scale_nutrients :: "real \<Rightarrow> meal \<Rightarrow> meal" where
  "scale_nutrients factor m =
     fold (\<lambda>nutrient m. case nutrients m nutrient of
                           None \<Rightarrow> m
                         | Some v \<Rightarrow> setitem m nutrient (v * factor))
       [''calories'', ''protein'', ''carbs'', ''fat''] m"

text \<open>The body of the loop of \<^verbatim>\<open>_adapt_for_high_glucose\<close>.\<close>

definition high_glucose_meal :: "real \<Rightarrow> meal \<Rightarrow> meal" where
  "high_glucose_meal reduction_factor m =
     (case nutrients m ''carbs'' of
        None \<Rightarrow> m
      | Some original_carbs \<Rightarrow>
         (let m = setitem m ''carbs'' (original_carbs * reduction_factor);
              m = (case nutrients m ''protein'' of
                     None \<Rightarrow> m
                   | Some p \<Rightarrow> setitem m ''protein'' (p * 1.1))
          in setitem m ''calories''
               (meal_get m ''protein'' 0 * 4 + meal_get m ''carbs'' 0 * 4
                  + meal_get m ''fat'' 0 * 9)))"

definition adapt_for_high_glucose ::
  "meal list \<Rightarrow> analysis \<Rightarrow> user_profile \<Rightarrow> py_error + (meal list \<times> explanation)" where
  "adapt_for_high_glucose meals a profile =
     (case trend_of a ''glucose'' of
        Inl e \<Rightarrow> Inl e
      | Inr glucose_info \<Rightarrow>
         (case number_of glucose_info ''maximum'' of
            Inl e \<Rightarrow> Inl e
          | Inr max_glucose \<Rightarrow>
             (let reduction_factor = (if max_glucose > 160 then 0.7 else 0.8)
              in Inr (map (high_glucose_meal reduction_factor) meals,
                      ReducedCarbohydrates reduction_factor max_glucose))))"

definition adapt_for_low_activity ::
  "meal list \<Rightarrow> analysis \<Rightarrow> user_profile \<Rightarrow> py_error + (meal list \<times> explanation)" where
  "adapt_for_low_activity meals a profile =
     (case trend_of a ''activity'' of
        Inl e \<Rightarrow> Inl e
      | Inr activity_info \<Rightarrow>
         (let reduction_factor = 0.85;
              meals = map (scale_nutrients reduction_factor) meals
          in case number_of activity_info ''average_steps'' of
               Inl e \<Rightarrow> Inl e
             | Inr avg_steps \<Rightarrow> Inr (meals, ReducedPortionsLowActivity avg_steps)))"

text \<open>The body of the loop of \<^verbatim>\<open>_adapt_for_poor_sleep\<close>.\<close>

definition poor_sleep_meal :: "meal \<Rightarrow> meal" where
  "poor_sleep_meal m =
     (let m = (case nutrients m ''protein'' of
                 None \<Rightarrow> m
               | Some p \<Rightarrow> setitem m ''protein'' (p * 1.15));
          m = (case nutrients m ''carbs'' of
                 None \<Rightarrow> m
               | Some c \<Rightarrow> setitem m ''carbs'' (c * 0.95))
      in setitem m ''calories''
           (meal_get m ''protein'' 0 * 4 + meal_get m ''carbs'' 0 * 4
              + meal_get m ''fat'' 0 * 9))"

definition adapt_for_poor_sleep ::
  "meal list \<Rightarrow> analysis \<Rightarrow> user_profile \<Rightarrow> py_error + (meal list \<times> explanation)" where
  "adapt_for_poor_sleep meals a profile =
     (case trend_of a ''sleep'' of
        Inl e \<Rightarrow> Inl e
      | Inr sleep_info \<Rightarrow>
         (let meals = map poor_sleep_meal meals
          in case number_of sleep_info ''average_hours'' of
               Inl e \<Rightarrow> Inl e
             | Inr avg_sleep \<Rightarrow> Inr (meals, IncreasedProteinPoorSleep avg_sleep)))"

definition adapt_for_high_stress ::
  "meal list \<Rightarrow> analysis \<Rightarrow> user_profile \<Rightarrow> py_error + (meal list \<times> explanation)" where
  "adapt_for_high_stress meals a profile =
     (case trend_of a ''heart_rate'' of
        Inl e \<Rightarrow> Inl e
      | Inr hr_info \<Rightarrow>
         (let meals = map (scale_nutrients 0.95) meals
          in case number_of hr_info ''average_bpm'' of
               Inl e \<Rightarrow> Inl e
             | Inr avg_hr \<Rightarrow> Inr (meals, AdjustedForStress avg_hr)))"

text \<open>
  The body of the weight-loss loop of \<^verbatim>\<open>_adapt_for_weight_change\<close>: four in-place
  multiplications without a membership test, each raising \<^verbatim>\<open>KeyError\<close> on a missing key.
\<close>

definition weight_loss_meal :: "meal \<Rightarrow> py_error + meal" where
  "weight_loss_meal m =
     (case imul m ''protein'' 1.1 of
        Inl e \<Rightarrow> Inl e
      | Inr m \<Rightarrow>
         (case imul m ''calories'' 1.05 of
            Inl e \<Rightarrow> Inl e
          | Inr m \<Rightarrow>
             (case imul m ''carbs'' 1.02 of
                Inl e \<Rightarrow> Inl e
              | Inr m \<Rightarrow> imul m ''fat'' 1.02)))"

text \<open>A \<^verbatim>\<open>for\<close> loop whose body may raise: the first exception ends it.\<close>

fun for_each :: "('a \<Rightarrow> py_error + 'b) \<Rightarrow> 'a list \<Rightarrow> py_error + 'b list" where
  "for_each f [] = Inr []"
| "for_each f (x # xs) =
     (case f x of
        Inl e \<Rightarrow> Inl e
      | Inr y \<Rightarrow> (case for_each f xs of Inl e \<Rightarrow> Inl e | Inr ys \<Rightarrow> Inr (y # ys)))"

definition adapt_for_weight_change ::
  "meal list \<Rightarrow> analysis \<Rightarrow> user_profile \<Rightarrow> py_error + (meal list \<times> explanation)" where
  "adapt_for_weight_change meals a profile =
     (case trend_of a ''weight'' of
        Inl e \<Rightarrow> Inl e
      | Inr weight_info \<Rightarrow>
         (case number_of weight_info ''total_change_kg'' of
            Inl e \<Rightarrow> Inl e
          | Inr weight_change \<Rightarrow>
             (if weight_change > 1
              then Inr (map (scale_nutrients 0.9) meals, ReducedPortionsWeightGain weight_change)
              else if weight_change < - 1
              then (case for_each weight_loss_meal meals of
                      Inl e \<Rightarrow> Inl e
                    | Inr meals \<Rightarrow> Inr (meals, IncreasedPortionsWeightLoss \<bar>weight_change\<bar>))
              else Inr (meals, NoExplanation))))"

text \<open>The dispatch table \<^verbatim>\<open>self.adaptation_strategies\<close>; three reasons have no entry.\<close>

fun adaptation_strategies ::
  "AdaptationReason \<Rightarrow>
   (meal list \<Rightarrow> analysis \<Rightarrow> user_profile \<Rightarrow> py_error + (meal list \<times> explanation)) option" where
  "adaptation_strategies HIGH_GLUCOSE = Some adapt_for_high_glucose"
| "adaptation_strategies LOW_ACTIVITY = Some adapt_for_low_activity"
| "adaptation_strategies POOR_SLEEP = Some adapt_for_poor_sleep"
| "adaptation_strategies HIGH_STRESS = Some adapt_for_high_stress"
| "adaptation_strategies WEIGHT_CHANGE = Some adapt_for_weight_change"
| "adaptation_strategies _ = None"

text \<open>
  The loop of \<^verbatim>\<open>adapt_meal_plan\<close> over \<^verbatim>\<open>analysis['adaptations_needed']\<close>, with the
  running pair \<open>(adapted_meals, adaptations_made)\<close>.
\<close>

fun apply_adaptations ::
  "AdaptationReason list \<Rightarrow> analysis \<Rightarrow> user_profile \<Rightarrow> meal list \<times> explanation list
   \<Rightarrow> py_error + (meal list \<times> explanation list)" where
  "apply_adaptations [] a profile st = Inr st"
| "apply_adaptations (adaptation_reason # rest) a profile (adapted_meals, adaptations_made) =
     (case adaptation_strategies adaptation_reason of
        None \<Rightarrow> apply_adaptations rest a profile (adapted_meals, adaptations_made)
      | Some strategy \<Rightarrow>
         (case strategy adapted_meals a profile of
            Inl e \<Rightarrow> Inl e
          | Inr (adapted_meals, explanation) \<Rightarrow>
             apply_adaptations rest a profile
               (adapted_meals,
                if explanation \<noteq> NoExplanation then adaptations_made @ [explanation]
                else adaptations_made)))"

text \<open>
  \<^verbatim>\<open>adapt_meal_plan\<close>, on values: \<^verbatim>\<open>meal.copy()\<close> yields a dict equal to \<open>meal\<close>. Which
  objects the call writes to is the subject of the store model below.
\<close>

definition adapt_meal_plan ::
  "int \<Rightarrow> meal list \<Rightarrow> user_profile \<Rightarrow> biometric_data list
   \<Rightarrow> py_error + (meal list \<times> explanation list)" where
  "adapt_meal_plan now meals profile biometric_data =
     (let a = analyze_biometric_trends now biometric_data 7
      in if adaptations_needed a = [] then Inr (meals, [])
         else
           (let adapted_meals = map (\<lambda>meal. meal) meals;
                adaptations_made = []
            in apply_adaptations (adaptations_needed a) a profile
                 (adapted_meals, adaptations_made)))"

section \<open>models.py: food allowance\<close>

text \<open>
  A food is a dict read with \<^verbatim>\<open>.get\<close> throughout (and once with \<^verbatim>\<open>food['name']\<close>), so
  each entry is optional.
\<close>

record food =
  name :: "string option"
  category :: "string option"
  allergens :: "string list option"
  calories_per_100g :: "real option"
  protein_g :: "real option"
  carbs_g :: "real option"
  fat_g :: "real option"
  fiber_g :: "real option"
  cost_per_100g :: "real option"

text \<open>\<^verbatim>\<open>any(keyword in food_name for keyword in keywords)\<close>: substring tests.\<close>

definition any_keyword_in :: "string list \<Rightarrow> string \<Rightarrow> bool" where
  "any_keyword_in keywords food_name = list_ex (\<lambda>keyword. sublist keyword food_name) keywords"

definition check_dietary_restriction :: "food \<Rightarrow> DietaryRestriction \<Rightarrow> bool" where
  "check_dietary_restriction food_data restriction =
     (let food_name = lower (get_default (name food_data) [])
      in if restriction = VEGETARIAN
         then \<not> any_keyword_in [''chicken'', ''beef'', ''pork'', ''turkey'', ''fish'', ''salmon'',
                                  ''tuna'', ''meat''] food_name
         else if restriction = VEGAN
         then \<not> any_keyword_in [''chicken'', ''beef'', ''pork'', ''turkey'', ''fish'', ''salmon'',
                                  ''tuna'', ''meat'', ''milk'', ''cheese'', ''yogurt'', ''egg'',
                                  ''butter'', ''honey''] food_name
         else if restriction = GLUTEN_FREE
         then \<not> any_keyword_in [''wheat'', ''bread'', ''pasta'', ''oat'', ''barley'', ''rye'']
                    food_name
         else if restriction = DAIRY_FREE
         then \<not> any_keyword_in [''milk'', ''cheese'', ''yogurt'', ''butter'', ''cream''] food_name
         else if restriction = KETO then get_default (carbs_g food_data) 0 < 5
         else if restriction = LOW_CARB then get_default (carbs_g food_data) 0 < 15
         else True)"

text \<open>\<^verbatim>\<open>is_food_allowed\<close>; the empty string default of \<^verbatim>\<open>.get('name', '')\<close> is \<open>[]\<close>.\<close>

definition is_food_allowed :: "user_profile \<Rightarrow> food \<Rightarrow> bool" where
  "is_food_allowed self food_data =
     (let food_name = lower (get_default (name food_data) []);
          allergen_list = get_default (allergens food_data) []
      in if list_ex (\<lambda>allergy. lower allergy \<in> set allergen_list \<or> sublist (lower allergy) food_name)
              (allergies (preferences self))
         then False
         else if list_ex (\<lambda>dislike. sublist (lower dislike) food_name) (dislikes (preferences self))
         then False
         else if list_ex (\<lambda>restriction. \<not> check_dietary_restriction food_data restriction)
                   (dietary_restrictions (preferences self))
         then False
         else True)"

section \<open>ml\_models.py: the meal optimizer\<close>

text \<open>
  \<^verbatim>\<open>MealSatisfactionPredictor\<close>. The fitted random forest belongs to scikit-learn; the
  trained path (feature extraction followed by the forest's prediction) is the parameter
  \<open>model_predict\<close>, which may raise.
\<close>

record predictor =
  trained :: bool
  model_predict :: "user_profile \<Rightarrow> food \<Rightarrow> py_error + real"

definition predict_satisfaction :: "predictor \<Rightarrow> user_profile \<Rightarrow> food \<Rightarrow> py_error + real" where
  "predict_satisfaction self profile food_data =
     (if \<not> trained self then Inr 3.0
      else (case model_predict self profile food_data of
              Inl e \<Rightarrow> Inl e
            | Inr prediction \<Rightarrow> Inr (max 1.0 (min 5.0 prediction))))"

definition calculate_nutrition_density :: "food \<Rightarrow> real" where
  "calculate_nutrition_density fd =
     (let calories = max (get_default (calories_per_100g fd) 1) 1;
          protein = get_default (protein_g fd) 0;
          fiber = get_default (fiber_g fd) 0;
          density_score = (protein * 4 + fiber * 2) / calories
      in min density_score 2.0)"

definition calculate_meal_type_fit :: "food \<Rightarrow> string \<Rightarrow> real" where
  "calculate_meal_type_fit fd mt =
     (let cat = lower (get_default (category fd) []);
          nm = lower (get_default (name fd) [])
      in if mt = ''breakfast''
         then (if list_ex (\<lambda>word. sublist word nm) [''oat'', ''egg'', ''yogurt'', ''milk''] then 1.0
               else if cat \<in> set [''dairy'', ''fruit''] then 0.8
               else 0.5)
         else if mt = ''lunch''
         then (if cat \<in> set [''protein'', ''carbohydrate'', ''vegetable''] then 1.0 else 0.7)
         else if mt = ''dinner''
         then (if cat \<in> set [''protein'', ''vegetable''] then 1.0
               else if cat = ''carbohydrate'' then 0.8
               else 0.6)
         else 0.5)"

text \<open>The body of the scoring loop: the pair \<open>(food, score)\<close> of one candidate.\<close>

definition score_food :: "predictor \<Rightarrow> user_profile \<Rightarrow> string \<Rightarrow> food \<Rightarrow> py_error + (food \<times> real)" where
  "score_food pr profile mt fd =
     (case predict_satisfaction pr profile fd of
        Inl e \<Rightarrow> Inl e
      | Inr satisfaction_score \<Rightarrow>
         (let nutrition_density = calculate_nutrition_density fd;
              cost_efficiency = 1.0 / max (get_default (cost_per_100g fd) 1) 0.1;
              meal_fit = calculate_meal_type_fit fd mt;
              combined_score = (satisfaction_score * 0.4 + nutrition_density * 0.3
                                  + cost_efficiency * 0.2 + meal_fit * 0.1)
          in Inr (fd, combined_score)))"

text \<open>\<^verbatim>\<open>food_scores.sort(key=lambda x: x['score'], reverse=True)\<close>: stable, descending.\<close>

definition sort_by_score_reverse :: "(food \<times> real) list \<Rightarrow> (food \<times> real) list" where
  "sort_by_score_reverse xs = rev (sort_key snd (rev xs))"

record totals =
  optimized_meals :: "meal list"
  total_cost :: real
  total_nutrition :: "string \<rightharpoonup> real"

text \<open>
  One iteration of the loop over \<^verbatim>\<open>meal_types\<close>. \<open>allowed_foods\<close> is not empty when the
  loop runs, so neither is the sorted score list (\<^verbatim>\<open>food_scores[0]\<close> on an empty list
  would raise); \<^verbatim>\<open>selected_food['name']\<close> raises on a food without a name.
\<close>

definition plan_meal ::
  "predictor \<Rightarrow> user_profile \<Rightarrow> food list \<Rightarrow> real \<Rightarrow> string \<Rightarrow> totals \<Rightarrow> py_error + totals" where
  "plan_meal pr profile allowed_foods total_target_calories mt acc =
     (let meal_target_calories =
            total_target_calories * get_default (MEAL_CALORIE_DISTRIBUTION mt) 0.33
      in case for_each (score_food pr profile mt) allowed_foods of
           Inl e \<Rightarrow> Inl e
         | Inr food_scores \<Rightarrow>
            (case sort_by_score_reverse food_scores of
               [] \<Rightarrow> Inl IndexError
             | (selected_food, _) # _ \<Rightarrow>
                (let portion_size =
                       meal_target_calories
                         / max (get_default (calories_per_100g selected_food) 100) 1 * 100;
                     portion_size = min portion_size 400;
                     actual_calories =
                       get_default (calories_per_100g selected_food) 0 * portion_size / 100
                 in case name selected_food of
                      None \<Rightarrow> Inl (KeyError ''name'')
                    | Some nm \<Rightarrow>
                       (let m = \<lparr>meal_type = mt, items = [nm],
                                 nutrients =
                                   [''calories'' \<mapsto> actual_calories,
                                    ''protein'' \<mapsto>
                                       get_default (protein_g selected_food) 0 * portion_size / 100,
                                    ''carbs'' \<mapsto>
                                       get_default (carbs_g selected_food) 0 * portion_size / 100,
                                    ''fat'' \<mapsto>
                                       get_default (fat_g selected_food) 0 * portion_size / 100]\<rparr>;
                            add = (\<lambda>tn k. tn(k \<mapsto> get_default (tn k) 0 + meal_get m k 0))
                        in Inr \<lparr>optimized_meals = optimized_meals acc @ [m],
                                 total_cost =
                                   total_cost acc
                                     + get_default (cost_per_100g selected_food) 1
                                         * portion_size / 100,
                                 total_nutrition =
                                   fold (\<lambda>k tn. add tn k)
                                     [''calories'', ''protein'', ''carbs'', ''fat'']
                                     (total_nutrition acc)\<rparr>))))"

fun plan_meals ::
  "predictor \<Rightarrow> user_profile \<Rightarrow> food list \<Rightarrow> real \<Rightarrow> string list \<Rightarrow> totals \<Rightarrow> py_error + totals" where
  "plan_meals pr profile allowed_foods target [] acc = Inr acc"
| "plan_meals pr profile allowed_foods target (mt # mts) acc =
     (case plan_meal pr profile allowed_foods target mt acc of
        Inl e \<Rightarrow> Inl e
      | Inr acc \<Rightarrow> plan_meals pr profile allowed_foods target mts acc)"

text \<open>
  The dict \<^verbatim>\<open>optimize_meal_plan\<close> returns: \<^verbatim>\<open>{'success': False, 'error': message}\<close> or
  \<^verbatim>\<open>{'success': True, 'meals': ..., 'total_nutrition': ..., 'total_cost': ...}\<close>.
\<close>

datatype plan_result =
  Failed string
  | Planned "meal list" "string \<rightharpoonup> real" real

fun success :: "plan_result \<Rightarrow> bool" where
  "success (Failed _) = False"
| "success (Planned _ _ _) = True"

fun error_message :: "plan_result \<Rightarrow> string option" where
  "error_message (Failed msg) = Some msg"
| "error_message (Planned _ _ _) = None"

definition optimize_meal_plan ::
  "predictor \<Rightarrow> user_profile \<Rightarrow> food list \<Rightarrow> (string \<rightharpoonup> real) \<Rightarrow> string list option
   \<Rightarrow> py_error + plan_result" where
  "optimize_meal_plan pr profile available_foods target_calories meal_types =
     (let meal_types = get_default meal_types [''breakfast'', ''lunch'', ''dinner''];
          allowed_foods = filter (is_food_allowed profile) available_foods
      in if allowed_foods = [] then Inr (Failed ''No allowed foods available'')
         else
           (let total_target_calories =
                  get_default (target_calories ''calories'') (calculate_tdee_profile profile)
            in case plan_meals pr profile allowed_foods total_target_calories meal_types
                      \<lparr>optimized_meals = [], total_cost = 0,
                       total_nutrition = [''calories'' \<mapsto> 0, ''protein'' \<mapsto> 0,
                                          ''carbs'' \<mapsto> 0, ''fat'' \<mapsto> 0]\<rparr> of
                 Inl e \<Rightarrow> Inl e
               | Inr acc \<Rightarrow>
                  Inr (Planned (optimized_meals acc) (total_nutrition acc) (total_cost acc))))"

section \<open>adaptation.py on a store: which dicts the engine writes\<close>

text \<open>
  Python dicts are mutable objects and the strategies update them in place. To say which
  objects a call writes, the meal dicts live in a store, a list of dict values indexed by
  address; a Python list of meals is the list of the addresses of its elements (no list is
  ever mutated by the engine, so lists stay values). \<^verbatim>\<open>meal.copy()\<close> allocates a new dict
  at the end of the store. The loop bodies are those of the value model above.
\<close>

type_synonym addr = nat
type_synonym store = "meal list"

definition dict_copy :: "addr \<Rightarrow> store \<Rightarrow> store \<times> addr" where
  "dict_copy r s = (s @ [s ! r], length s)"

text \<open>\<^verbatim>\<open>[meal.copy() for meal in meals]\<close>.\<close>

fun copy_meals :: "addr list \<Rightarrow> store \<Rightarrow> store \<times> addr list" where
  "copy_meals [] s = (s, [])"
| "copy_meals (r # rs) s =
     (let (s, a) = dict_copy r s;
          (s, as) = copy_meals rs s
      in (s, a # as))"

text \<open>\<^verbatim>\<open>for meal in meals: body\<close>, the body rewriting the dict at the meal's address.\<close>

definition update_each :: "(meal \<Rightarrow> meal) \<Rightarrow> addr list \<Rightarrow> store \<Rightarrow> store" where
  "update_each body refs s = fold (\<lambda>r s. s[r := body (s ! r)]) refs s"

text \<open>\<^verbatim>\<open>meal[key] *= f\<close> in place; the store is unchanged when the key is missing.\<close>

definition imul_at :: "addr \<Rightarrow> string \<Rightarrow> real \<Rightarrow> store \<Rightarrow> store \<times> py_error option" where
  "imul_at r k f s =
     (case nutrients (s ! r) k of
        None \<Rightarrow> (s, Some (KeyError k))
      | Some v \<Rightarrow> (s[r := setitem (s ! r) k (v * f)], None))"

definition weight_loss_at :: "addr \<Rightarrow> store \<Rightarrow> store \<times> py_error option" where
  "weight_loss_at r s =
     (case imul_at r ''protein'' 1.1 s of
        (s, Some e) \<Rightarrow> (s, Some e)
      | (s, None) \<Rightarrow>
         (case imul_at r ''calories'' 1.05 s of
            (s, Some e) \<Rightarrow> (s, Some e)
          | (s, None) \<Rightarrow>
             (case imul_at r ''carbs'' 1.02 s of
                (s, Some e) \<Rightarrow> (s, Some e)
              | (s, None) \<Rightarrow> imul_at r ''fat'' 1.02 s)))"

fun for_each_at ::
  "(addr \<Rightarrow> store \<Rightarrow> store \<times> py_error option) \<Rightarrow> addr list \<Rightarrow> store
   \<Rightarrow> store \<times> py_error option" where
  "for_each_at body [] s = (s, None)"
| "for_each_at body (r # rs) s =
     (case body r s of
        (s, Some e) \<Rightarrow> (s, Some e)
      | (s, None) \<Rightarrow> for_each_at body rs s)"

type_synonym store_strategy =
  "addr list \<Rightarrow> analysis \<Rightarrow> user_profile \<Rightarrow> store
   \<Rightarrow> store \<times> (py_error + (addr list \<times> explanation))"

definition adapt_for_high_glucose_store :: store_strategy where
  "adapt_for_high_glucose_store meals a profile s =
     (case trend_of a ''glucose'' of
        Inl e \<Rightarrow> (s, Inl e)
      | Inr glucose_info \<Rightarrow>
         (case number_of glucose_info ''maximum'' of
            Inl e \<Rightarrow> (s, Inl e)
          | Inr max_glucose \<Rightarrow>
             (let reduction_factor = (if max_glucose > 160 then 0.7 else 0.8)
              in (update_each (high_glucose_meal reduction_factor) meals s,
                  Inr (meals, ReducedCarbohydrates reduction_factor max_glucose)))))"

definition adapt_for_low_activity_store :: store_strategy where
  "adapt_for_low_activity_store meals a profile s =
     (case trend_of a ''activity'' of
        Inl e \<Rightarrow> (s, Inl e)
      | Inr activity_info \<Rightarrow>
         (let reduction_factor = 0.85;
              s = update_each (scale_nutrients reduction_factor) meals s
          in case number_of activity_info ''average_steps'' of
               Inl e \<Rightarrow> (s, Inl e)
             | Inr avg_steps \<Rightarrow> (s, Inr (meals, ReducedPortionsLowActivity avg_steps))))"

definition adapt_for_poor_sleep_store :: store_strategy where
  "adapt_for_poor_sleep_store meals a profile s =
     (case trend_of a ''sleep'' of
        Inl e \<Rightarrow> (s, Inl e)
      | Inr sleep_info \<Rightarrow>
         (let s = update_each poor_sleep_meal meals s
          in case number_of sleep_info ''average_hours'' of
               Inl e \<Rightarrow> (s, Inl e)
             | Inr avg_sleep \<Rightarrow> (s, Inr (meals, IncreasedProteinPoorSleep avg_sleep))))"

definition adapt_for_high_stress_store :: store_strategy where
  "adapt_for_high_stress_store meals a profile s =
     (case trend_of a ''heart_rate'' of
        Inl e \<Rightarrow> (s, Inl e)
      | Inr hr_info \<Rightarrow>
         (let s = update_each (scale_nutrients 0.95) meals s
          in case number_of hr_info ''average_bpm'' of
               Inl e \<Rightarrow> (s, Inl e)
             | Inr avg_hr \<Rightarrow> (s, Inr (meals, AdjustedForStress avg_hr))))"

definition adapt_for_weight_change_store :: store_strategy where
  "adapt_for_weight_change_store meals a profile s =
     (case trend_of a ''weight'' of
        Inl e \<Rightarrow> (s, Inl e)
      | Inr weight_info \<Rightarrow>
         (case number_of weight_info ''total_change_kg'' of
            Inl e \<Rightarrow> (s, Inl e)
          | Inr weight_change \<Rightarrow>
             (if weight_change > 1
              then (update_each (scale_nutrients 0.9) meals s,
                    Inr (meals, ReducedPortionsWeightGain weight_change))
              else if weight_change < - 1
              then (case for_each_at weight_loss_at meals s of
                      (s, Some e) \<Rightarrow> (s, Inl e)
                    | (s, None) \<Rightarrow> (s, Inr (meals, IncreasedPortionsWeightLoss \<bar>weight_change\<bar>)))
              else (s, Inr (meals, NoExplanation)))))"

fun adaptation_strategies_store :: "AdaptationReason \<Rightarrow> store_strategy option" where
  "adaptation_strategies_store HIGH_GLUCOSE = Some adapt_for_high_glucose_store"
| "adaptation_strategies_store LOW_ACTIVITY = Some adapt_for_low_activity_store"
| "adaptation_strategies_store POOR_SLEEP = Some adapt_for_poor_sleep_store"
| "adaptation_strategies_store HIGH_STRESS = Some adapt_for_high_stress_store"
| "adaptation_strategies_store WEIGHT_CHANGE = Some adapt_for_weight_change_store"
| "adaptation_strategies_store _ = None"

fun apply_adaptations_store ::
  "AdaptationReason list \<Rightarrow> analysis \<Rightarrow> user_profile \<Rightarrow> addr list \<times> explanation list
   \<Rightarrow> store \<Rightarrow> store \<times> (py_error + (addr list \<times> explanation list))" where
  "apply_adaptations_store [] a profile st s = (s, Inr st)"
| "apply_adaptations_store (adaptation_reason # rest) a profile
     (adapted_meals, adaptations_made) s =
     (case adaptation_strategies_store adaptation_reason of
        None \<Rightarrow> apply_adaptations_store rest a profile (adapted_meals, adaptations_made) s
      | Some strategy \<Rightarrow>
         (case strategy adapted_meals a profile s of
            (s, Inl e) \<Rightarrow> (s, Inl e)
          | (s, Inr (adapted_meals, explanation)) \<Rightarrow>
             apply_adaptations_store rest a profile
               (adapted_meals,
                if explanation \<noteq> NoExplanation then adaptations_made @ [explanation]
                else adaptations_made) s))"

text \<open>
  \<^verbatim>\<open>adapt_meal_plan\<close> on the store: \<open>meals\<close> are the addresses of the caller's dicts, the
  result is the store after the call with the exception raised or the returned pair.
\<close>

definition adapt_meal_plan_store ::
  "int \<Rightarrow> addr list \<Rightarrow> user_profile \<Rightarrow> biometric_data list \<Rightarrow> store
   \<Rightarrow> store \<times> (py_error + (addr list \<times> explanation list))" where
  "adapt_meal_plan_store now meals profile biometric_data s =
     (let a = analyze_biometric_trends now biometric_data 7
      in if adaptations_needed a = [] then (s, Inr (meals, []))
         else
           (let (s, adapted_meals) = copy_meals meals s;
                adaptations_made = []
            in apply_adaptations_store (adaptations_needed a) a profile
                 (adapted_meals, adaptations_made) s))"

section \<open>Properties named by the specification\<close>

text \<open>
  The specification's consistency identity of a meal,
  \<^verbatim>\<open>calories == protein*4 + carbs*4 + fat*9\<close>, with an absent macro read as \<open>0\<close> the way
  the engine's own recomputation reads it.
\<close>

definition macro_consistent :: "meal \<Rightarrow> bool" where
  "macro_consistent m =
     (nutrients m ''calories''
        = Some (meal_get m ''protein'' 0 * 4 + meal_get m ''carbs'' 0 * 4
                  + meal_get m ''fat'' 0 * 9))"

text \<open>
  The glucose-regulation factor in the specification's words: the bucket of the average of
  the 5 most recent glucose readings (\<open>1.0\<close> without readings).
\<close>

definition spec_glucose_factor :: "biometric_data list \<Rightarrow> real" where
  "spec_glucose_factor recent_biometrics =
     (let readings = take 5 (glucose_values (sorted_by_timestamp_reverse recent_biometrics))
      in if readings = [] then 1.0
         else
           (let avg = np_mean readings
            in if avg > 140 then 0.92
               else if avg > 120 then 0.96
               else if 70 \<le> avg \<and> avg \<le> 100 then 1.02
               else 1.0))"

section \<open>Metabolism: BMR and the TDEE scenario\<close>

text \<open>
  C9. For every profile whose \<^verbatim>\<open>sex.lower()\<close> is not \<^verbatim>\<open>"male"\<close> (so also for
  \<^verbatim>\<open>"other"\<close>), both \<^verbatim>\<open>_mifflin_st_jeor\<close> and \<^verbatim>\<open>UserProfile.calculate_bmr\<close> use the
  constant \<open>-161\<close>, and the BMR equals that of the same profile with sex \<^verbatim>\<open>"female"\<close>.
\<close>

theorem non_male_bmr_uses_female_constant:
  assumes "lower (sex profile) \<noteq> ''male''"
  shows "mifflin_st_jeor profile
           = 10 * weight_kg profile + 6.25 * height_cm profile
               - 5 * real_of_int (age profile) - 161
         \<and> calculate_bmr_profile profile
           = 10 * weight_kg profile + 6.25 * height_cm profile
               - 5 * real_of_int (age profile) - 161
         \<and> mifflin_st_jeor profile = mifflin_st_jeor (profile\<lparr>sex := ''female''\<rparr>)
         \<and> calculate_bmr_profile profile = calculate_bmr_profile (profile\<lparr>sex := ''female''\<rparr>)"
  using assms by (simp add: mifflin_st_jeor_def calculate_bmr_profile_def lower_def lower_char_def)

theorem non_male_bmr_uses_female_constant_witness:
  "lower ''other'' \<noteq> ''male''
   \<and> mifflin_st_jeor
       \<lparr>age = 30, sex = ''other'', weight_kg = 60, height_cm = 165,
        activity_level = SEDENTARY,
        preferences = \<lparr>allergies = [], dislikes = [], dietary_restrictions = []\<rparr>\<rparr> = 1320.25
   \<and> calculate_bmr_profile
       \<lparr>age = 30, sex = ''other'', weight_kg = 60, height_cm = 165,
        activity_level = SEDENTARY,
        preferences = \<lparr>allergies = [], dislikes = [], dietary_restrictions = []\<rparr>\<rparr>
     = calculate_bmr_profile
       \<lparr>age = 30, sex = ''female'', weight_kg = 60, height_cm = 165,
        activity_level = SEDENTARY,
        preferences = \<lparr>allergies = [], dislikes = [], dietary_restrictions = []\<rparr>\<rparr>"
proof -
  have h: "lower (sex \<lparr>age = 30, sex = ''other'', weight_kg = 60, height_cm = 165,
        activity_level = SEDENTARY,
        preferences = \<lparr>allergies = [], dislikes = [], dietary_restrictions = []\<rparr>\<rparr>) \<noteq> ''male''"
    by (simp add: lower_def lower_char_def)
  show ?thesis
    using h non_male_bmr_uses_female_constant [OF h] by simp
qed

text \<open>
  C2, as the specification states it, fails: for the profile of the scenario
  (age 32, male, 75 kg, 180 cm, moderately active) and an empty history,
  \<^verbatim>\<open>calculate_tdee\<close> does not return a BMR of \<open>1705\<close> with a TDEE of \<open>2642.75\<close>; the
  BMR it returns is \<open>10\<cdot>75 + 6.25\<cdot>180 - 5\<cdot>32 + 5 = 1720\<close>.
\<close>

theorem tdee_scenario_counterexample:
  "calculate_tdee
     \<lparr>age = 32, sex = ''male'', weight_kg = 75, height_cm = 180,
      activity_level = MODERATELY_ACTIVE,
      preferences = \<lparr>allergies = [], dislikes = [], dietary_restrictions = []\<rparr>\<rparr>
     (Some []) True
   \<noteq> Inr \<lparr>bmr = 1705, base_tdee = 2642.75, adaptive_tdee = 2642.75,
           tdee_factors = default_adaptive_factors, adaptive_multiplier = None\<rparr>
   \<and> map_sum id bmr
       (calculate_tdee
          \<lparr>age = 32, sex = ''male'', weight_kg = 75, height_cm = 180,
           activity_level = MODERATELY_ACTIVE,
           preferences = \<lparr>allergies = [], dislikes = [], dietary_restrictions = []\<rparr>\<rparr>
          (Some []) True) = Inr 1720"
  by (simp add: calculate_tdee_def estimate_body_fat_percentage_def truthy_def
        mifflin_st_jeor_def lower_def lower_char_def get_default_def)

text \<open>
  C2, amended: for that profile and an empty biometric history (\<^verbatim>\<open>None\<close> or \<^verbatim>\<open>[]\<close>),
  \<^verbatim>\<open>calculate_tdee\<close> returns \<open>bmr = 1720\<close>, \<open>base_tdee = adaptive_tdee = 1720 \<times> 1.55 = 2666\<close>
  and every adaptive factor equal to \<open>1\<close>, whatever the flag \<^verbatim>\<open>adaptive\<close>.
\<close>

theorem tdee_scenario_values:
  "calculate_tdee
     \<lparr>age = 32, sex = ''male'', weight_kg = 75, height_cm = 180,
      activity_level = MODERATELY_ACTIVE,
      preferences = \<lparr>allergies = [], dislikes = [], dietary_restrictions = []\<rparr>\<rparr>
     None adaptive
   = Inr \<lparr>bmr = 1720, base_tdee = 1720 * 1.55, adaptive_tdee = 2666,
           tdee_factors =
             \<lparr>sleep_quality = 1, stress_level = 1, glucose_regulation = 1,
              activity_consistency = 1, recovery_status = 1\<rparr>,
           adaptive_multiplier = None\<rparr>
   \<and> calculate_tdee
     \<lparr>age = 32, sex = ''male'', weight_kg = 75, height_cm = 180,
      activity_level = MODERATELY_ACTIVE,
      preferences = \<lparr>allergies = [], dislikes = [], dietary_restrictions = []\<rparr>\<rparr>
     (Some []) adaptive
   = Inr \<lparr>bmr = 1720, base_tdee = 1720 * 1.55, adaptive_tdee = 2666,
           tdee_factors =
             \<lparr>sleep_quality = 1, stress_level = 1, glucose_regulation = 1,
              activity_consistency = 1, recovery_status = 1\<rparr>,
           adaptive_multiplier = None\<rparr>"
  by (simp add: calculate_tdee_def estimate_body_fat_percentage_def truthy_def
        mifflin_st_jeor_def lower_def lower_char_def get_default_def
        default_adaptive_factors_def)

theorem tdee_scenario_values_witness:
  "map_sum id base_tdee
     (calculate_tdee
        \<lparr>age = 32, sex = ''male'', weight_kg = 75, height_cm = 180,
         activity_level = MODERATELY_ACTIVE,
         preferences = \<lparr>allergies = [], dislikes = [], dietary_restrictions = []\<rparr>\<rparr>
        None True) = Inr 2666"
  using tdee_scenario_values [of True] by simp

section \<open>The no-op adaptation and the empty candidate pool\<close>

text \<open>
  C7. With an empty sample list \<^verbatim>\<open>adapt_meal_plan\<close> raises nothing and returns the input
  meal list itself with an empty explanation list, for every meal list, profile and clock.
\<close>

theorem adapt_without_samples_returns_input:
  "adapt_meal_plan now meals profile [] = Inr (meals, [])"
  by (simp add: adapt_meal_plan_def analyze_biometric_trends_def empty_analysis_def)

text \<open>
  C8. If no candidate food passes \<^verbatim>\<open>is_food_allowed\<close>, \<^verbatim>\<open>optimize_meal_plan\<close> raises nothing
  and returns the dict \<^verbatim>\<open>{'success': False, 'error': 'No allowed foods available'}\<close>, for every
  predictor, profile, calorie target and meal-type list.
\<close>

theorem optimize_empty_pool_is_structured_failure:
  assumes "filter (is_food_allowed profile) available_foods = []"
  shows "optimize_meal_plan pr profile available_foods target_calories meal_types
           = Inr (Failed ''No allowed foods available'')
         \<and> map_sum id success
             (optimize_meal_plan pr profile available_foods target_calories meal_types)
           = Inr False"
  using assms by (simp add: optimize_meal_plan_def)

theorem optimize_empty_pool_is_structured_failure_witness:
  "filter (is_food_allowed
            \<lparr>age = 32, sex = ''male'', weight_kg = 75, height_cm = 180,
             activity_level = MODERATELY_ACTIVE,
             preferences = \<lparr>allergies = [], dislikes = [], dietary_restrictions = [VEGETARIAN]\<rparr>\<rparr>)
     [\<lparr>name = Some ''Chicken Breast'', category = Some ''protein'', allergens = Some [],
       calories_per_100g = Some 165, protein_g = Some 31, carbs_g = Some 0, fat_g = Some 3.6,
       fiber_g = Some 0, cost_per_100g = Some 1.2\<rparr>] = []
   \<and> optimize_meal_plan \<lparr>trained = False, model_predict = (\<lambda>p f. Inr 3)\<rparr>
        \<lparr>age = 32, sex = ''male'', weight_kg = 75, height_cm = 180,
         activity_level = MODERATELY_ACTIVE,
         preferences = \<lparr>allergies = [], dislikes = [], dietary_restrictions = [VEGETARIAN]\<rparr>\<rparr>
        [\<lparr>name = Some ''Chicken Breast'', category = Some ''protein'', allergens = Some [],
          calories_per_100g = Some 165, protein_g = Some 31, carbs_g = Some 0, fat_g = Some 3.6,
          fiber_g = Some 0, cost_per_100g = Some 1.2\<rparr>]
        [''calories'' \<mapsto> 2000] None
      = Inr (Failed ''No allowed foods available'')"
proof -
  have lc: "lower ''Chicken Breast'' = ''chicken breast''" by code_simp
  have h: "filter (is_food_allowed
            \<lparr>age = 32, sex = ''male'', weight_kg = 75, height_cm = 180,
             activity_level = MODERATELY_ACTIVE,
             preferences = \<lparr>allergies = [], dislikes = [], dietary_restrictions = [VEGETARIAN]\<rparr>\<rparr>)
     [\<lparr>name = Some ''Chicken Breast'', category = Some ''protein'', allergens = Some [],
       calories_per_100g = Some 165, protein_g = Some 31, carbs_g = Some 0, fat_g = Some 3.6,
       fiber_g = Some 0, cost_per_100g = Some 1.2\<rparr>] = []"
    by (simp add: is_food_allowed_def check_dietary_restriction_def any_keyword_in_def
          get_default_def lc)
  show ?thesis
    using h optimize_empty_pool_is_structured_failure [OF h] by simp
qed

section \<open>Goal calories\<close>

lemma calculate_bmr_profile_eq: "calculate_bmr_profile p = mifflin_st_jeor p"
  by (simp add: calculate_bmr_profile_def mifflin_st_jeor_def)

lemma calculate_tdee_no_history:
  assumes "height_cm profile \<noteq> 0"
  shows "calculate_tdee profile None adaptive
           = Inr \<lparr>bmr = mifflin_st_jeor profile,
                   base_tdee = mifflin_st_jeor profile * activity_value (activity_level profile),
                   adaptive_tdee = mifflin_st_jeor profile * activity_value (activity_level profile),
                   tdee_factors = default_adaptive_factors, adaptive_multiplier = None\<rparr>"
  using assms
  by (simp add: calculate_tdee_def estimate_body_fat_percentage_def truthy_def Let_def)

lemma calculate_tdee_zero_height:
  "height_cm profile = 0 \<Longrightarrow> calculate_tdee profile None adaptive = Inl ZeroDivisionError"
  by (simp add: calculate_tdee_def estimate_body_fat_percentage_def truthy_def Let_def)

lemma clamp_facts:
  fixes b d mn :: real
  assumes "0 < d" and "1200 \<le> mn"
  shows "mn \<le> max mn (min b (b * 1.5))"
    and "max mn (min (b - d) (b * 1.5)) \<le> max mn (min b (b * 1.5))"
    and "max mn (min b (b * 1.5)) \<le> max mn (min (b + d) (b * 1.5))"
    and "(max mn (min b (b * 1.5)) \<le> b * 1.5) = (mn \<le> b * 1.5)"
    and "(max mn (min (b - d) (b * 1.5)) < max mn (min b (b * 1.5))) = (mn < b)"
    and "(max mn (min b (b * 1.5)) < max mn (min (b + d) (b * 1.5))) = (mn < min (b + d) (b * 1.5))"
  using assms by (auto simp: max_def min_def)

text \<open>
  C4, as the specification states it, fails: for a 70-year-old sedentary woman of 45 kg and
  150 cm the base TDEE (\<open>1051.8\<close>) lies below the safety floor (\<open>1200\<close>), the clamp lifts
  both the maintenance and the weight-loss target to the floor, and \<open>weight_loss < maintenance\<close>
  is false.
\<close>

theorem calorie_needs_bounds_counterexample:
  "calculate_calorie_needs_by_goal
     \<lparr>age = 70, sex = ''female'', weight_kg = 45, height_cm = 150,
      activity_level = SEDENTARY,
      preferences = \<lparr>allergies = [], dislikes = [], dietary_restrictions = []\<rparr>\<rparr>
     ''lose'' 0.5
   = Inr \<lparr>maintenance = 1200, weight_loss = 1200, weight_gain = 1577.7,
           min_safe_calories = 1200, max_safe_calories = 1577.7,
           tdee_breakdown =
             \<lparr>bmr = 876.5, base_tdee = 1051.8, adaptive_tdee = 1051.8,
              tdee_factors = default_adaptive_factors, adaptive_multiplier = None\<rparr>\<rparr>
   \<and> map_sum id (\<lambda>r. weight_loss r < maintenance r)
       (calculate_calorie_needs_by_goal
          \<lparr>age = 70, sex = ''female'', weight_kg = 45, height_cm = 150,
           activity_level = SEDENTARY,
           preferences = \<lparr>allergies = [], dislikes = [], dietary_restrictions = []\<rparr>\<rparr>
          ''lose'' 0.5) = Inr False"
  by (simp add: calculate_calorie_needs_by_goal_def calculate_tdee_def
        estimate_body_fat_percentage_def truthy_def mifflin_st_jeor_def calculate_bmr_profile_def
        lower_def lower_char_def Let_def)

text \<open>
  C4, amended. For every profile of non-zero height (a zero height raises
  \<^verbatim>\<open>ZeroDivisionError\<close> in the body-fat estimate) and every \<open>rate_kg_per_week > 0\<close>,
  \<^verbatim>\<open>calculate_calorie_needs_by_goal\<close> returns a result with
  \<open>min_safe_calories = max(1.1 \<times> BMR, 1200)\<close>, \<open>max_safe_calories = 1.5 \<times> base TDEE\<close>,
  \<open>min_safe_calories \<le> maintenance\<close> and \<open>weight_loss \<le> maintenance \<le> weight_gain\<close>.
  \<open>maintenance \<le> max_safe_calories\<close> holds exactly when \<open>min_safe_calories \<le> max_safe_calories\<close>,
  \<open>weight_loss < maintenance\<close> exactly when \<open>min_safe_calories < base TDEE\<close>, and
  \<open>maintenance < weight_gain\<close> exactly when
  \<open>min_safe_calories < min(base TDEE + 1100 \<times> rate, max_safe_calories)\<close>. In particular all the
  inequalities of the claim hold whenever the base TDEE exceeds the safety floor.
\<close>

theorem calorie_needs_bounds:
  assumes "height_cm profile \<noteq> 0" and "0 < rate_kg_per_week"
  shows "\<exists>r. calculate_calorie_needs_by_goal profile goal rate_kg_per_week = Inr r
           \<and> min_safe_calories r = max (bmr (tdee_breakdown r) * 1.1) 1200
           \<and> max_safe_calories r = base_tdee (tdee_breakdown r) * 1.5
           \<and> bmr (tdee_breakdown r) = calculate_bmr_profile profile
           \<and> base_tdee (tdee_breakdown r)
               = calculate_bmr_profile profile * activity_value (activity_level profile)
           \<and> min_safe_calories r \<le> maintenance r
           \<and> weight_loss r \<le> maintenance r
           \<and> maintenance r \<le> weight_gain r
           \<and> ((maintenance r \<le> max_safe_calories r)
                = (min_safe_calories r \<le> max_safe_calories r))
           \<and> ((weight_loss r < maintenance r)
                = (min_safe_calories r < base_tdee (tdee_breakdown r)))
           \<and> ((maintenance r < weight_gain r)
                = (min_safe_calories r
                     < min (base_tdee (tdee_breakdown r) + rate_kg_per_week * 1100)
                           (max_safe_calories r)))
           \<and> (min_safe_calories r < base_tdee (tdee_breakdown r)
                \<longrightarrow> min_safe_calories r \<le> maintenance r
                    \<and> maintenance r \<le> max_safe_calories r
                    \<and> weight_loss r < maintenance r
                    \<and> maintenance r < weight_gain r)"
proof -
  define b where "b = mifflin_st_jeor profile * activity_value (activity_level profile)"
  define d where "d = rate_kg_per_week * 1100"
  define mn where "mn = max (mifflin_st_jeor profile * 1.1) 1200"
  define r where "r =
    \<lparr>maintenance = max mn (min b (b * 1.5)),
     weight_loss = max mn (min (b - d) (b * 1.5)),
     weight_gain = max mn (min (b + d) (b * 1.5)),
     min_safe_calories = mn, max_safe_calories = b * 1.5,
     tdee_breakdown =
       \<lparr>bmr = mifflin_st_jeor profile, base_tdee = b, adaptive_tdee = b,
        tdee_factors = default_adaptive_factors, adaptive_multiplier = None\<rparr>\<rparr>"
  have d: "0 < d" and dd: "\<bar>rate_kg_per_week * 7700\<bar> / 7 = d"
    using assms(2) by (simp_all add: d_def abs_mult)
  have mn: "1200 \<le> mn" by (simp add: mn_def)
  note cf = clamp_facts [OF d mn, of b]
  have sel: "maintenance r = max mn (min b (b * 1.5))"
    "weight_loss r = max mn (min (b - d) (b * 1.5))"
    "weight_gain r = max mn (min (b + d) (b * 1.5))"
    "min_safe_calories r = mn" "max_safe_calories r = b * 1.5"
    "bmr (tdee_breakdown r) = mifflin_st_jeor profile"
    "base_tdee (tdee_breakdown r) = b"
    by (simp_all add: r_def)
  have eq: "calculate_calorie_needs_by_goal profile goal rate_kg_per_week = Inr r"
    by (simp add: calculate_calorie_needs_by_goal_def calculate_tdee_no_history [OF assms(1)]
          calculate_bmr_profile_eq Let_def b_def dd mn_def r_def)
  have strict: "mn < b \<Longrightarrow> mn \<le> b * 1.5 \<and> mn < min (b + d) (b * 1.5)"
    using d mn by (auto simp: min_def)
  have 1: "min_safe_calories r = max (bmr (tdee_breakdown r) * 1.1) 1200"
    unfolding sel by (rule mn_def)
  have 2: "max_safe_calories r = base_tdee (tdee_breakdown r) * 1.5"
    unfolding sel by (rule refl)
  have 3: "bmr (tdee_breakdown r) = calculate_bmr_profile profile"
    unfolding sel by (rule calculate_bmr_profile_eq [symmetric])
  have 4: "base_tdee (tdee_breakdown r)
             = calculate_bmr_profile profile * activity_value (activity_level profile)"
    unfolding sel calculate_bmr_profile_eq by (rule b_def)
  have 5: "min_safe_calories r \<le> maintenance r" unfolding sel by (rule cf(1))
  have 6: "weight_loss r \<le> maintenance r" unfolding sel by (rule cf(2))
  have 7: "maintenance r \<le> weight_gain r" unfolding sel by (rule cf(3))
  have 8: "(maintenance r \<le> max_safe_calories r) = (min_safe_calories r \<le> max_safe_calories r)"
    unfolding sel by (rule cf(4))
  have 9: "(weight_loss r < maintenance r) = (min_safe_calories r < base_tdee (tdee_breakdown r))"
    unfolding sel by (rule cf(5))
  have 10: "(maintenance r < weight_gain r)
              = (min_safe_calories r
                   < min (base_tdee (tdee_breakdown r) + rate_kg_per_week * 1100)
                         (max_safe_calories r))"
    unfolding sel d_def [symmetric] by (rule cf(6))
  have 11: "min_safe_calories r < base_tdee (tdee_breakdown r)
              \<longrightarrow> min_safe_calories r \<le> maintenance r
                  \<and> maintenance r \<le> max_safe_calories r
                  \<and> weight_loss r < maintenance r
                  \<and> maintenance r < weight_gain r"
    using 5 8 9 10 strict unfolding sel d_def [symmetric] by blast
  from eq 1 2 3 4 5 6 7 8 9 10 11 show ?thesis by blast
qed


theorem calorie_needs_bounds_witness:
  "height_cm
     \<lparr>age = 32, sex = ''male'', weight_kg = 75, height_cm = 180,
      activity_level = MODERATELY_ACTIVE,
      preferences = \<lparr>allergies = [], dislikes = [], dietary_restrictions = []\<rparr>\<rparr> \<noteq> 0
   \<and> (0 :: real) < 0.5
   \<and> calculate_calorie_needs_by_goal
       \<lparr>age = 32, sex = ''male'', weight_kg = 75, height_cm = 180,
        activity_level = MODERATELY_ACTIVE,
        preferences = \<lparr>allergies = [], dislikes = [], dietary_restrictions = []\<rparr>\<rparr>
       ''lose'' 0.5
     = Inr \<lparr>maintenance = 2666, weight_loss = 2116, weight_gain = 3216,
             min_safe_calories = 1892, max_safe_calories = 3999,
             tdee_breakdown =
               \<lparr>bmr = 1720, base_tdee = 2666, adaptive_tdee = 2666,
                tdee_factors = default_adaptive_factors, adaptive_multiplier = None\<rparr>\<rparr>
   \<and> (1892 :: real) < 2666"
  using calorie_needs_bounds
    [of "\<lparr>age = 32, sex = ''male'', weight_kg = 75, height_cm = 180,
         activity_level = MODERATELY_ACTIVE,
         preferences = \<lparr>allergies = [], dislikes = [], dietary_restrictions = []\<rparr>\<rparr>"
        "0.5" "''lose''"]
  by (simp add: calculate_calorie_needs_by_goal_def calculate_tdee_def
        estimate_body_fat_percentage_def truthy_def mifflin_st_jeor_def calculate_bmr_profile_def
        lower_def lower_char_def Let_def)

section \<open>Adaptive factors\<close>

lemmas factor_defs = calculate_adaptive_factors_def default_adaptive_factors_def
  sorted_by_timestamp_reverse_def calculate_sleep_factor_def calculate_glucose_factor_def
  calculate_activity_factor_def calculate_stress_factor_def calculate_recovery_factor_def
  recovery_score_def last_n_def np_mean_def List.map_filter_simps BiometricData_def

text \<open>
  C3 does not hold of the code. \<^verbatim>\<open>_calculate_adaptive_factors\<close> sorts the samples most
  recent first, and \<^verbatim>\<open>_calculate_glucose_factor\<close> then takes \<^verbatim>\<open>biometrics[-5:]\<close>, the
  last five of that list: the five oldest samples. For six daily samples whose oldest
  reading is 300 mg/dL and whose five most recent readings are 90 mg/dL, the code averages
  \<open>[90, 90, 90, 90, 300]\<close> to \<open>132\<close> and returns \<open>0.96\<close>, where the five most recent
  readings average \<open>90\<close>, whose bucket is \<open>1.02\<close>.
\<close>

theorem glucose_factor_reads_oldest_samples:
  "glucose_regulation
     (calculate_adaptive_factors
        \<lparr>age = 32, sex = ''male'', weight_kg = 75, height_cm = 180,
         activity_level = MODERATELY_ACTIVE,
         preferences = \<lparr>allergies = [], dislikes = [], dietary_restrictions = []\<rparr>\<rparr>
        [(BiometricData 1)\<lparr>glucose_mg_dl := Some 300\<rparr>,
         (BiometricData 2)\<lparr>glucose_mg_dl := Some 90\<rparr>,
         (BiometricData 3)\<lparr>glucose_mg_dl := Some 90\<rparr>,
         (BiometricData 4)\<lparr>glucose_mg_dl := Some 90\<rparr>,
         (BiometricData 5)\<lparr>glucose_mg_dl := Some 90\<rparr>,
         (BiometricData 6)\<lparr>glucose_mg_dl := Some 90\<rparr>]) = 0.96
   \<and> spec_glucose_factor
        [(BiometricData 1)\<lparr>glucose_mg_dl := Some 300\<rparr>,
         (BiometricData 2)\<lparr>glucose_mg_dl := Some 90\<rparr>,
         (BiometricData 3)\<lparr>glucose_mg_dl := Some 90\<rparr>,
         (BiometricData 4)\<lparr>glucose_mg_dl := Some 90\<rparr>,
         (BiometricData 5)\<lparr>glucose_mg_dl := Some 90\<rparr>,
         (BiometricData 6)\<lparr>glucose_mg_dl := Some 90\<rparr>] = 1.02
   \<and> map_sum id (\<lambda>r. glucose_regulation (tdee_factors r))
       (calculate_tdee
          \<lparr>age = 32, sex = ''male'', weight_kg = 75, height_cm = 180,
           activity_level = MODERATELY_ACTIVE,
           preferences = \<lparr>allergies = [], dislikes = [], dietary_restrictions = []\<rparr>\<rparr>
          (Some [(BiometricData 1)\<lparr>glucose_mg_dl := Some 300\<rparr>,
                 (BiometricData 2)\<lparr>glucose_mg_dl := Some 90\<rparr>,
                 (BiometricData 3)\<lparr>glucose_mg_dl := Some 90\<rparr>,
                 (BiometricData 4)\<lparr>glucose_mg_dl := Some 90\<rparr>,
                 (BiometricData 5)\<lparr>glucose_mg_dl := Some 90\<rparr>,
                 (BiometricData 6)\<lparr>glucose_mg_dl := Some 90\<rparr>])
          True) = Inr 0.96"
  by (simp add: factor_defs spec_glucose_factor_def glucose_values_def calculate_tdee_def
        estimate_body_fat_percentage_def truthy_def get_default_def Let_def)

theorem glucose_factor_reads_oldest_samples_witness:
  "glucose_regulation
     (calculate_adaptive_factors
        \<lparr>age = 32, sex = ''male'', weight_kg = 75, height_cm = 180,
         activity_level = MODERATELY_ACTIVE,
         preferences = \<lparr>allergies = [], dislikes = [], dietary_restrictions = []\<rparr>\<rparr>
        [(BiometricData 1)\<lparr>glucose_mg_dl := Some 300\<rparr>,
         (BiometricData 2)\<lparr>glucose_mg_dl := Some 90\<rparr>,
         (BiometricData 3)\<lparr>glucose_mg_dl := Some 90\<rparr>,
         (BiometricData 4)\<lparr>glucose_mg_dl := Some 90\<rparr>,
         (BiometricData 5)\<lparr>glucose_mg_dl := Some 90\<rparr>,
         (BiometricData 6)\<lparr>glucose_mg_dl := Some 90\<rparr>])
   \<noteq> spec_glucose_factor
        [(BiometricData 1)\<lparr>glucose_mg_dl := Some 300\<rparr>,
         (BiometricData 2)\<lparr>glucose_mg_dl := Some 90\<rparr>,
         (BiometricData 3)\<lparr>glucose_mg_dl := Some 90\<rparr>,
         (BiometricData 4)\<lparr>glucose_mg_dl := Some 90\<rparr>,
         (BiometricData 5)\<lparr>glucose_mg_dl := Some 90\<rparr>,
         (BiometricData 6)\<lparr>glucose_mg_dl := Some 90\<rparr>]"
  using glucose_factor_reads_oldest_samples by simp

section \<open>Trend analysis and strategies: auxiliary facts\<close>

text \<open>
  What each metric's analysis emits, what the combined analysis holds, and that a strategy
  dispatched for a tag of the analysis finds the entries it reads.
\<close>

lemmas threshold_defs = adaptation_thresholds_def HIGH_GLUCOSE_THRESHOLD_def
  LOW_ACTIVITY_THRESHOLD_def POOR_SLEEP_THRESHOLD_def

lemma glucose_adaptations:
  "adaptations (analyze_glucose_trends rd)
     = (if glucose_values rd \<noteq> [] \<and> np_max (glucose_values rd) > 140
        then [HIGH_GLUCOSE] else [])"
  by (simp add: analyze_glucose_trends_def no_data_def Let_def threshold_defs)

lemma glucose_alerts_empty:
  "alerts (analyze_glucose_trends rd) = [] \<Longrightarrow> adaptations (analyze_glucose_trends rd) = []"
  by (simp add: analyze_glucose_trends_def no_data_def Let_def threshold_defs split: if_splits)

lemma glucose_maximum:
  "glucose_values rd \<noteq> []
     \<Longrightarrow> numbers (analyze_glucose_trends rd) ''maximum'' = Some (np_max (glucose_values rd))"
  by (simp add: analyze_glucose_trends_def Let_def)

lemma activity_adaptations:
  "adaptations (analyze_activity_trends rd)
     = (if map real_of_int (List.map_filter steps rd) \<noteq> []
           \<and> np_mean (map real_of_int (List.map_filter steps rd)) < 5000
        then [LOW_ACTIVITY] else [])"
  by (simp add: analyze_activity_trends_def no_data_def Let_def threshold_defs)

lemma activity_alerts_empty:
  "alerts (analyze_activity_trends rd) = [] \<Longrightarrow> adaptations (analyze_activity_trends rd) = []"
  by (simp add: analyze_activity_trends_def no_data_def Let_def threshold_defs split: if_splits)

lemma activity_average:
  "List.map_filter steps rd \<noteq> []
     \<Longrightarrow> numbers (analyze_activity_trends rd) ''average_steps''
           = Some (np_mean (map real_of_int (List.map_filter steps rd)))"
  by (simp add: analyze_activity_trends_def Let_def)

lemma sleep_adaptations:
  "adaptations (analyze_sleep_trends rd)
     = (if List.map_filter sleep_hours rd \<noteq> [] \<and> np_mean (List.map_filter sleep_hours rd) < 6
        then [POOR_SLEEP] else [])"
  by (simp add: analyze_sleep_trends_def no_data_def Let_def threshold_defs)

lemma sleep_alerts_empty:
  "alerts (analyze_sleep_trends rd) = [] \<Longrightarrow> adaptations (analyze_sleep_trends rd) = []"
  by (simp add: analyze_sleep_trends_def no_data_def Let_def threshold_defs split: if_splits)

lemma sleep_average:
  "List.map_filter sleep_hours rd \<noteq> []
     \<Longrightarrow> numbers (analyze_sleep_trends rd) ''average_hours''
           = Some (np_mean (List.map_filter sleep_hours rd))"
  by (simp add: analyze_sleep_trends_def Let_def)

lemma heart_rate_adaptations:
  "adaptations (analyze_heart_rate_trends rd)
     = (if hr_values rd = [] then []
        else (if np_mean (hr_values rd) > 100 then [HIGH_STRESS] else [])
               @ (if np_std (hr_values rd) > 20 then [HIGH_STRESS] else []))"
  by (simp add: analyze_heart_rate_trends_def no_data_def Let_def threshold_defs)

lemma heart_rate_alerts_empty:
  "alerts (analyze_heart_rate_trends rd) = [] \<Longrightarrow> adaptations (analyze_heart_rate_trends rd) = []"
  by (simp add: analyze_heart_rate_trends_def no_data_def Let_def threshold_defs split: if_splits)

lemma heart_rate_average:
  "hr_values rd \<noteq> []
     \<Longrightarrow> numbers (analyze_heart_rate_trends rd) ''average_bpm'' = Some (np_mean (hr_values rd))"
  by (simp add: analyze_heart_rate_trends_def Let_def)

lemma weight_adaptations:
  "adaptations (analyze_weight_trends rd)
     = (if 2 \<le> length (List.map_filter bio_weight_kg rd)
           \<and> \<bar>last (List.map_filter bio_weight_kg rd) - hd (List.map_filter bio_weight_kg rd)\<bar> > 2
        then [WEIGHT_CHANGE] else [])"
  by (simp add: analyze_weight_trends_def no_data_def Let_def threshold_defs)

lemma weight_alerts_empty:
  "alerts (analyze_weight_trends rd) = [] \<Longrightarrow> adaptations (analyze_weight_trends rd) = []"
  by (simp add: analyze_weight_trends_def no_data_def Let_def threshold_defs split: if_splits)

lemma weight_change:
  "2 \<le> length (List.map_filter bio_weight_kg rd)
     \<Longrightarrow> numbers (analyze_weight_trends rd) ''total_change_kg''
           = Some (last (List.map_filter bio_weight_kg rd) - hd (List.map_filter bio_weight_kg rd))"
  by (simp add: analyze_weight_trends_def Let_def)

lemma record_trend_adaptations:
  "alerts info = [] \<longrightarrow> adaptations info = []
     \<Longrightarrow> adaptations_needed (record_trend key info a) = adaptations_needed a @ adaptations info"
  by (auto simp: record_trend_def Let_def)

lemma record_trend_trends:
  "trends (record_trend key info a) = (trends a)(key \<mapsto> info)"
  by (simp add: record_trend_def Let_def)

lemma recent_data_Nil: "recent_data now [] days = []"
  by (simp add: recent_data_def sorted_by_timestamp_def)

lemma analysis_empty:
  "recent_data now data 7 = [] \<Longrightarrow> analyze_biometric_trends now data 7 = empty_analysis"
  by (simp add: analyze_biometric_trends_def)

lemma analysis_adaptations:
  "adaptations_needed (analyze_biometric_trends now data 7)
     = adaptations (analyze_glucose_trends (recent_data now data 7))
       @ adaptations (analyze_activity_trends (recent_data now data 7))
       @ adaptations (analyze_sleep_trends (recent_data now data 7))
       @ adaptations (analyze_heart_rate_trends (recent_data now data 7))
       @ adaptations (analyze_weight_trends (recent_data now data 7))"
proof (cases "recent_data now data 7 = []")
  case True
  then show ?thesis
    by (simp add: analysis_empty empty_analysis_def glucose_adaptations activity_adaptations
          sleep_adaptations heart_rate_adaptations weight_adaptations glucose_values_def
          hr_values_def List.map_filter_simps)
next
  case False
  then have "data \<noteq> []" using recent_data_Nil by auto
  with False show ?thesis
    by (simp add: analyze_biometric_trends_def Let_def record_trend_adaptations
          glucose_alerts_empty activity_alerts_empty sleep_alerts_empty heart_rate_alerts_empty
          weight_alerts_empty empty_analysis_def)
qed

lemma analysis_trends:
  "recent_data now data 7 \<noteq> []
     \<Longrightarrow> trends (analyze_biometric_trends now data 7)
           = [''glucose'' \<mapsto> analyze_glucose_trends (recent_data now data 7),
              ''activity'' \<mapsto> analyze_activity_trends (recent_data now data 7),
              ''sleep'' \<mapsto> analyze_sleep_trends (recent_data now data 7),
              ''heart_rate'' \<mapsto> analyze_heart_rate_trends (recent_data now data 7),
              ''weight'' \<mapsto> analyze_weight_trends (recent_data now data 7)]"
proof -
  assume ne: "recent_data now data 7 \<noteq> []"
  then have "data \<noteq> []" using recent_data_Nil by auto
  with ne show ?thesis
    by (simp add: analyze_biometric_trends_def Let_def record_trend_trends empty_analysis_def)
qed


lemma glucose_values_Nil: "glucose_values [] = []"
  by (simp add: glucose_values_def List.map_filter_simps)

lemma hr_values_Nil: "hr_values [] = []"
  by (simp add: hr_values_def List.map_filter_simps)

lemma high_glucose_tag:
  assumes "HIGH_GLUCOSE \<in> set (adaptations_needed (analyze_biometric_trends now data 7))"
  shows "glucose_values (recent_data now data 7) \<noteq> []
         \<and> np_max (glucose_values (recent_data now data 7)) > 140"
  using assms
  by (simp add: analysis_adaptations glucose_adaptations activity_adaptations sleep_adaptations
        heart_rate_adaptations weight_adaptations split: if_splits)

lemma low_activity_tag:
  assumes "LOW_ACTIVITY \<in> set (adaptations_needed (analyze_biometric_trends now data 7))"
  shows "List.map_filter steps (recent_data now data 7) \<noteq> []"
  using assms
  by (simp add: analysis_adaptations glucose_adaptations activity_adaptations sleep_adaptations
        heart_rate_adaptations weight_adaptations split: if_splits)

lemma poor_sleep_tag:
  assumes "POOR_SLEEP \<in> set (adaptations_needed (analyze_biometric_trends now data 7))"
  shows "List.map_filter sleep_hours (recent_data now data 7) \<noteq> []"
  using assms
  by (simp add: analysis_adaptations glucose_adaptations activity_adaptations sleep_adaptations
        heart_rate_adaptations weight_adaptations split: if_splits)

lemma high_stress_tag:
  assumes "HIGH_STRESS \<in> set (adaptations_needed (analyze_biometric_trends now data 7))"
  shows "hr_values (recent_data now data 7) \<noteq> []"
  using assms
  by (simp add: analysis_adaptations glucose_adaptations activity_adaptations sleep_adaptations
        heart_rate_adaptations weight_adaptations split: if_splits)

lemma map_filter_Nil: "List.map_filter f [] = []"
  by (simp add: List.map_filter_simps)

lemma high_glucose_returns:
  assumes "glucose_values (recent_data now data 7) \<noteq> []"
  shows "adapt_for_high_glucose meals (analyze_biometric_trends now data 7) profile
           = Inr (map (high_glucose_meal
                         (if np_max (glucose_values (recent_data now data 7)) > 160
                          then 0.7 else 0.8)) meals,
                  ReducedCarbohydrates
                    (if np_max (glucose_values (recent_data now data 7)) > 160 then 0.7 else 0.8)
                    (np_max (glucose_values (recent_data now data 7))))"
proof -
  have ne: "recent_data now data 7 \<noteq> []" using assms glucose_values_Nil by auto
  show ?thesis
    by (simp add: adapt_for_high_glucose_def trend_of_def number_of_def analysis_trends [OF ne]
          glucose_maximum [OF assms] Let_def)
qed

lemma low_activity_returns:
  assumes "List.map_filter steps (recent_data now data 7) \<noteq> []"
  shows "adapt_for_low_activity meals (analyze_biometric_trends now data 7) profile
           = Inr (map (scale_nutrients 0.85) meals,
                  ReducedPortionsLowActivity
                    (np_mean (map real_of_int (List.map_filter steps (recent_data now data 7)))))"
proof -
  have ne: "recent_data now data 7 \<noteq> []" using assms map_filter_Nil by auto
  show ?thesis
    by (simp add: adapt_for_low_activity_def trend_of_def number_of_def analysis_trends [OF ne]
          activity_average [OF assms] Let_def)
qed

lemma poor_sleep_returns:
  assumes "List.map_filter sleep_hours (recent_data now data 7) \<noteq> []"
  shows "adapt_for_poor_sleep meals (analyze_biometric_trends now data 7) profile
           = Inr (map poor_sleep_meal meals,
                  IncreasedProteinPoorSleep
                    (np_mean (List.map_filter sleep_hours (recent_data now data 7))))"
proof -
  have ne: "recent_data now data 7 \<noteq> []" using assms map_filter_Nil by auto
  show ?thesis
    by (simp add: adapt_for_poor_sleep_def trend_of_def number_of_def analysis_trends [OF ne]
          sleep_average [OF assms] Let_def)
qed

lemma high_stress_returns:
  assumes "hr_values (recent_data now data 7) \<noteq> []"
  shows "adapt_for_high_stress meals (analyze_biometric_trends now data 7) profile
           = Inr (map (scale_nutrients 0.95) meals,
                  AdjustedForStress (np_mean (hr_values (recent_data now data 7))))"
proof -
  have ne: "recent_data now data 7 \<noteq> []" using assms hr_values_Nil by auto
  show ?thesis
    by (simp add: adapt_for_high_stress_def trend_of_def number_of_def analysis_trends [OF ne]
          heart_rate_average [OF assms] Let_def)
qed

subsection \<open>The loop bodies\<close>

lemma scale_nutrients_entries:
  "nutrients (scale_nutrients f m) k
     = (if k \<in> {''calories'', ''protein'', ''carbs'', ''fat''}
        then map_option (\<lambda>v. v * f) (nutrients m k) else nutrients m k)"
  by (auto simp: scale_nutrients_def setitem_def split: option.splits)

lemma scale_nutrients_other:
  "meal_type (scale_nutrients f m) = meal_type m \<and> items (scale_nutrients f m) = items m"
  by (auto simp: scale_nutrients_def setitem_def split: option.splits)

lemma high_glucose_meal_without_carbs:
  "\<not> has_key m ''carbs'' \<Longrightarrow> high_glucose_meal rf m = m"
  by (simp add: high_glucose_meal_def has_key_def)

lemma high_glucose_meal_entries:
  assumes "nutrients m ''carbs'' = Some c"
  shows "nutrients (high_glucose_meal rf m) ''carbs'' = Some (c * rf)"
    and "nutrients (high_glucose_meal rf m) ''protein''
           = map_option (\<lambda>p. p * 1.1) (nutrients m ''protein'')"
    and "nutrients (high_glucose_meal rf m) ''fat'' = nutrients m ''fat''"
    and "nutrients (high_glucose_meal rf m) ''calories''
           = Some (get_default (nutrients m ''protein'') 0 * 1.1 * 4 + c * rf * 4
                     + get_default (nutrients m ''fat'') 0 * 9)"
    and "macro_consistent (high_glucose_meal rf m)"
  using assms
  by (auto simp: high_glucose_meal_def setitem_def meal_get_def get_default_def
        macro_consistent_def Let_def split: option.splits)

lemma poor_sleep_meal_consistent: "macro_consistent (poor_sleep_meal m)"
  by (auto simp: poor_sleep_meal_def setitem_def meal_get_def get_default_def
        macro_consistent_def Let_def split: option.splits)

section \<open>Evaluation on concrete inputs\<close>

text \<open>
  The equations that evaluate the analyzer and the strategies on concrete samples and
  meals. A comparison with a standard deviation is decided on the variance.
\<close>

lemmas analyzer_eval = analyze_biometric_trends_def recent_data_def empty_analysis_def
  record_trend_def sorted_by_timestamp_def timedelta_days_def analyze_glucose_trends_def
  analyze_activity_trends_def analyze_sleep_trends_def analyze_heart_rate_trends_def
  analyze_weight_trends_def no_data_def glucose_values_def hr_values_def
  List.map_filter_simps BiometricData_def threshold_defs np_mean_def np_var_def
  calculate_trend_direction_def Let_def

lemmas strategy_eval = adapt_meal_plan_def adapt_for_high_glucose_def adapt_for_low_activity_def
  adapt_for_poor_sleep_def adapt_for_high_stress_def adapt_for_weight_change_def
  trend_of_def number_of_def scale_nutrients_def high_glucose_meal_def poor_sleep_meal_def
  setitem_def meal_get_def get_default_def macro_consistent_def has_key_def

lemma np_std_gt_iff:
  assumes "0 \<le> c"
  shows "(c < np_std xs) = (c\<^sup>2 < np_var xs)"
proof -
  have "sqrt (c\<^sup>2) = c" using assms by simp
  then have "(c < np_std xs) = (sqrt (c\<^sup>2) < sqrt (np_var xs))"
    unfolding np_std_def by (simp only:)
  also have "\<dots> = (c\<^sup>2 < np_var xs)" by (rule real_sqrt_less_iff)
  finally show ?thesis .
qed

section \<open>The calorie identity under the adaptation steps\<close>

text \<open>
  C1, as the specification states it, fails. A sample of 1000 steps triggers
  \<^verbatim>\<open>LOW_ACTIVITY\<close> alone; \<^verbatim>\<open>adapt_meal_plan\<close> applies the low-activity strategy to a meal
  of the optimizer's kind (400 g of brown rice: 444 kcal, whose macros sum to 442 kcal) and
  returns a meal whose calories, \<open>377.4\<close>, differ from
  \<open>protein\<cdot>4 + carbs\<cdot>4 + fat\<cdot>9 = 375.7\<close>: the strategy scales the calories, it does not
  recompute them.
\<close>

theorem calorie_identity_counterexample:
  "map_sum id snd
     (adapt_meal_plan 0
        [\<lparr>meal_type = ''lunch'', items = [''Brown Rice''],
          nutrients = [''calories'' \<mapsto> 444, ''protein'' \<mapsto> 10.4, ''carbs'' \<mapsto> 92,
                       ''fat'' \<mapsto> 3.6]\<rparr>]
        \<lparr>age = 32, sex = ''male'', weight_kg = 75, height_cm = 180,
         activity_level = MODERATELY_ACTIVE,
         preferences = \<lparr>allergies = [], dislikes = [], dietary_restrictions = []\<rparr>\<rparr>
        [(BiometricData 0)\<lparr>steps := Some 1000\<rparr>])
     = Inr [ReducedPortionsLowActivity 1000]
   \<and> map_sum id (\<lambda>r. list_all macro_consistent (fst r))
       (adapt_meal_plan 0
          [\<lparr>meal_type = ''lunch'', items = [''Brown Rice''],
            nutrients = [''calories'' \<mapsto> 444, ''protein'' \<mapsto> 10.4, ''carbs'' \<mapsto> 92,
                         ''fat'' \<mapsto> 3.6]\<rparr>]
          \<lparr>age = 32, sex = ''male'', weight_kg = 75, height_cm = 180,
           activity_level = MODERATELY_ACTIVE,
           preferences = \<lparr>allergies = [], dislikes = [], dietary_restrictions = []\<rparr>\<rparr>
          [(BiometricData 0)\<lparr>steps := Some 1000\<rparr>])
     = Inr False"
  by (simp add: analyzer_eval strategy_eval)

text \<open>
  C1, amended. For every meal list and every history whose analysis carries the tag:
  the \<^verbatim>\<open>HIGH_GLUCOSE\<close> strategy returns, and afterwards every meal that had a
  \<^verbatim>\<open>carbs\<close> entry satisfies \<open>calories = protein\<cdot>4 + carbs\<cdot>4 + fat\<cdot>9\<close> (a meal without
  one is returned unchanged); the \<^verbatim>\<open>POOR_SLEEP\<close> strategy returns, and afterwards every
  meal satisfies the identity; both for arbitrary input meals. The \<^verbatim>\<open>LOW_ACTIVITY\<close> and
  \<^verbatim>\<open>HIGH_STRESS\<close> strategies return each meal with its present entries among calories,
  protein, carbs and fat multiplied by \<open>0.85\<close> and \<open>0.95\<close>: the calories are scaled along
  with the macros and are not recomputed from them, so these two steps promise nothing
  about the identity.
\<close>

theorem adaptation_steps_and_calorie_identity:
  "(HIGH_GLUCOSE \<in> set (adaptations_needed (analyze_biometric_trends now data 7)) \<longrightarrow>
      (\<exists>ms e. adapt_for_high_glucose meals (analyze_biometric_trends now data 7) profile
                 = Inr (ms, e)
             \<and> list_all2 (\<lambda>m m'. if has_key m ''carbs'' then macro_consistent m' else m' = m)
                 meals ms))
   \<and> (POOR_SLEEP \<in> set (adaptations_needed (analyze_biometric_trends now data 7)) \<longrightarrow>
      (\<exists>ms e. adapt_for_poor_sleep meals (analyze_biometric_trends now data 7) profile
                 = Inr (ms, e)
             \<and> list_all macro_consistent ms))
   \<and> (LOW_ACTIVITY \<in> set (adaptations_needed (analyze_biometric_trends now data 7)) \<longrightarrow>
      (\<exists>ms e. adapt_for_low_activity meals (analyze_biometric_trends now data 7) profile
                 = Inr (ms, e)
             \<and> ms = map (scale_nutrients 0.85) meals))
   \<and> (HIGH_STRESS \<in> set (adaptations_needed (analyze_biometric_trends now data 7)) \<longrightarrow>
      (\<exists>ms e. adapt_for_high_stress meals (analyze_biometric_trends now data 7) profile
                 = Inr (ms, e)
             \<and> ms = map (scale_nutrients 0.95) meals))
   \<and> (\<forall>k. nutrients (scale_nutrients f m) k
            = (if k \<in> {''calories'', ''protein'', ''carbs'', ''fat''}
               then map_option (\<lambda>v. v * f) (nutrients m k) else nutrients m k))"
proof (intro conjI impI allI)
  assume "HIGH_GLUCOSE \<in> set (adaptations_needed (analyze_biometric_trends now data 7))"
  then have "glucose_values (recent_data now data 7) \<noteq> []"
    using high_glucose_tag by blast
  from high_glucose_returns [OF this]
  show "\<exists>ms e. adapt_for_high_glucose meals (analyze_biometric_trends now data 7) profile
                 = Inr (ms, e)
             \<and> list_all2 (\<lambda>m m'. if has_key m ''carbs'' then macro_consistent m' else m' = m)
                 meals ms"
    by (auto simp: list_all2_map2 list_all2_same has_key_def high_glucose_meal_entries(5)
          high_glucose_meal_without_carbs)
next
  assume "POOR_SLEEP \<in> set (adaptations_needed (analyze_biometric_trends now data 7))"
  then have "List.map_filter sleep_hours (recent_data now data 7) \<noteq> []"
    using poor_sleep_tag by blast
  from poor_sleep_returns [OF this]
  show "\<exists>ms e. adapt_for_poor_sleep meals (analyze_biometric_trends now data 7) profile
                 = Inr (ms, e) \<and> list_all macro_consistent ms"
    by (simp add: list_all_iff poor_sleep_meal_consistent)
next
  assume "LOW_ACTIVITY \<in> set (adaptations_needed (analyze_biometric_trends now data 7))"
  then have "List.map_filter steps (recent_data now data 7) \<noteq> []"
    using low_activity_tag by blast
  from low_activity_returns [OF this]
  show "\<exists>ms e. adapt_for_low_activity meals (analyze_biometric_trends now data 7) profile
                 = Inr (ms, e)
             \<and> ms = map (scale_nutrients 0.85) meals"
    by simp
next
  assume "HIGH_STRESS \<in> set (adaptations_needed (analyze_biometric_trends now data 7))"
  then have "hr_values (recent_data now data 7) \<noteq> []"
    using high_stress_tag by blast
  from high_stress_returns [OF this]
  show "\<exists>ms e. adapt_for_high_stress meals (analyze_biometric_trends now data 7) profile
                 = Inr (ms, e)
             \<and> ms = map (scale_nutrients 0.95) meals"
    by simp
next
  fix k
  show "nutrients (scale_nutrients f m) k
            = (if k \<in> {''calories'', ''protein'', ''carbs'', ''fat''}
               then map_option (\<lambda>v. v * f) (nutrients m k) else nutrients m k)"
    by (rule scale_nutrients_entries)
qed

theorem adaptation_steps_and_calorie_identity_witness:
  "HIGH_GLUCOSE \<in> set (adaptations_needed
      (analyze_biometric_trends 0
         [(BiometricData 0)\<lparr>steps := Some 1000, heart_rate := Some 110, sleep_hours := Some 5,
                             glucose_mg_dl := Some 150\<rparr>] 7))
   \<and> POOR_SLEEP \<in> set (adaptations_needed
      (analyze_biometric_trends 0
         [(BiometricData 0)\<lparr>steps := Some 1000, heart_rate := Some 110, sleep_hours := Some 5,
                             glucose_mg_dl := Some 150\<rparr>] 7))
   \<and> LOW_ACTIVITY \<in> set (adaptations_needed
      (analyze_biometric_trends 0
         [(BiometricData 0)\<lparr>steps := Some 1000, heart_rate := Some 110, sleep_hours := Some 5,
                             glucose_mg_dl := Some 150\<rparr>] 7))
   \<and> HIGH_STRESS \<in> set (adaptations_needed
      (analyze_biometric_trends 0
         [(BiometricData 0)\<lparr>steps := Some 1000, heart_rate := Some 110, sleep_hours := Some 5,
                             glucose_mg_dl := Some 150\<rparr>] 7))
   \<and> map_sum id (\<lambda>r. list_all macro_consistent (fst r))
       (adapt_for_high_glucose
          [\<lparr>meal_type = ''lunch'', items = [''Brown Rice''],
            nutrients = [''calories'' \<mapsto> 444, ''protein'' \<mapsto> 10.4, ''carbs'' \<mapsto> 92,
                         ''fat'' \<mapsto> 3.6]\<rparr>]
          (analyze_biometric_trends 0
             [(BiometricData 0)\<lparr>steps := Some 1000, heart_rate := Some 110,
                                 sleep_hours := Some 5, glucose_mg_dl := Some 150\<rparr>] 7)
          \<lparr>age = 32, sex = ''male'', weight_kg = 75, height_cm = 180,
           activity_level = MODERATELY_ACTIVE,
           preferences = \<lparr>allergies = [], dislikes = [], dietary_restrictions = []\<rparr>\<rparr>)
     = Inr True
   \<and> map_sum id (\<lambda>r. list_all macro_consistent (fst r))
       (adapt_for_poor_sleep
          [\<lparr>meal_type = ''lunch'', items = [''Brown Rice''],
            nutrients = [''calories'' \<mapsto> 444, ''protein'' \<mapsto> 10.4, ''carbs'' \<mapsto> 92,
                         ''fat'' \<mapsto> 3.6]\<rparr>]
          (analyze_biometric_trends 0
             [(BiometricData 0)\<lparr>steps := Some 1000, heart_rate := Some 110,
                                 sleep_hours := Some 5, glucose_mg_dl := Some 150\<rparr>] 7)
          \<lparr>age = 32, sex = ''male'', weight_kg = 75, height_cm = 180,
           activity_level = MODERATELY_ACTIVE,
           preferences = \<lparr>allergies = [], dislikes = [], dietary_restrictions = []\<rparr>\<rparr>)
     = Inr True
   \<and> map_sum id (\<lambda>r. map (\<lambda>m. nutrients m ''calories'') (fst r))
       (adapt_for_low_activity
          [\<lparr>meal_type = ''lunch'', items = [''Brown Rice''],
            nutrients = [''calories'' \<mapsto> 444, ''protein'' \<mapsto> 10.4, ''carbs'' \<mapsto> 92,
                         ''fat'' \<mapsto> 3.6]\<rparr>]
          (analyze_biometric_trends 0
             [(BiometricData 0)\<lparr>steps := Some 1000, heart_rate := Some 110,
                                 sleep_hours := Some 5, glucose_mg_dl := Some 150\<rparr>] 7)
          \<lparr>age = 32, sex = ''male'', weight_kg = 75, height_cm = 180,
           activity_level = MODERATELY_ACTIVE,
           preferences = \<lparr>allergies = [], dislikes = [], dietary_restrictions = []\<rparr>\<rparr>)
     = Inr [Some 377.4]
   \<and> map_sum id (\<lambda>r. map (\<lambda>m. nutrients m ''calories'') (fst r))
       (adapt_for_high_stress
          [\<lparr>meal_type = ''lunch'', items = [''Brown Rice''],
            nutrients = [''calories'' \<mapsto> 444, ''protein'' \<mapsto> 10.4, ''carbs'' \<mapsto> 92,
                         ''fat'' \<mapsto> 3.6]\<rparr>]
          (analyze_biometric_trends 0
             [(BiometricData 0)\<lparr>steps := Some 1000, heart_rate := Some 110,
                                 sleep_hours := Some 5, glucose_mg_dl := Some 150\<rparr>] 7)
          \<lparr>age = 32, sex = ''male'', weight_kg = 75, height_cm = 180,
           activity_level = MODERATELY_ACTIVE,
           preferences = \<lparr>allergies = [], dislikes = [], dietary_restrictions = []\<rparr>\<rparr>)
     = Inr [Some 421.8]"
  using adaptation_steps_and_calorie_identity
    [of 0 "[(BiometricData 0)\<lparr>steps := Some 1000, heart_rate := Some 110,
                                sleep_hours := Some 5, glucose_mg_dl := Some 150\<rparr>]"
        "[\<lparr>meal_type = ''lunch'', items = [''Brown Rice''],
            nutrients = [''calories'' \<mapsto> 444, ''protein'' \<mapsto> 10.4, ''carbs'' \<mapsto> 92,
                         ''fat'' \<mapsto> 3.6]\<rparr>]"
        "\<lparr>age = 32, sex = ''male'', weight_kg = 75, height_cm = 180,
           activity_level = MODERATELY_ACTIVE,
           preferences = \<lparr>allergies = [], dislikes = [], dietary_restrictions = []\<rparr>\<rparr>"]
  by (simp add: analyzer_eval strategy_eval np_std_def)

section \<open>The glucose rule\<close>

text \<open>
  C6. For two histories whose glucose readings in the analysis window peak at 150 and at
  170 mg/dL, \<^verbatim>\<open>HIGH_GLUCOSE\<close> is the first tag of both analyses, and the high-glucose
  strategy rewrites every meal with the loop body at factor \<open>0.8\<close> and \<open>0.7\<close>: a meal with a
  \<^verbatim>\<open>carbs\<close> entry \<open>c\<close> gets carbs \<open>c\<cdot>0.8\<close> and \<open>c\<cdot>0.7\<close> (strictly less for \<open>c > 0\<close>), its
  protein, when present, times \<open>1.1\<close>, its fat unchanged and its calories recomputed as
  \<open>protein\<cdot>4 + carbs\<cdot>4 + fat\<cdot>9\<close> from the new values.
\<close>

theorem high_glucose_rule_is_monotone:
  assumes ne1: "glucose_values (recent_data now data1 7) \<noteq> []"
    and max1: "np_max (glucose_values (recent_data now data1 7)) = 150"
    and ne2: "glucose_values (recent_data now data2 7) \<noteq> []"
    and max2: "np_max (glucose_values (recent_data now data2 7)) = 170"
  shows "adaptations_needed (analyze_biometric_trends now data1 7)
           = HIGH_GLUCOSE
             # adaptations (analyze_activity_trends (recent_data now data1 7))
             @ adaptations (analyze_sleep_trends (recent_data now data1 7))
             @ adaptations (analyze_heart_rate_trends (recent_data now data1 7))
             @ adaptations (analyze_weight_trends (recent_data now data1 7))
         \<and> adaptations_needed (analyze_biometric_trends now data2 7)
           = HIGH_GLUCOSE
             # adaptations (analyze_activity_trends (recent_data now data2 7))
             @ adaptations (analyze_sleep_trends (recent_data now data2 7))
             @ adaptations (analyze_heart_rate_trends (recent_data now data2 7))
             @ adaptations (analyze_weight_trends (recent_data now data2 7))
         \<and> adapt_for_high_glucose meals (analyze_biometric_trends now data1 7) profile
           = Inr (map (high_glucose_meal 0.8) meals, ReducedCarbohydrates 0.8 150)
         \<and> adapt_for_high_glucose meals (analyze_biometric_trends now data2 7) profile
           = Inr (map (high_glucose_meal 0.7) meals, ReducedCarbohydrates 0.7 170)
         \<and> (\<forall>m c rf.
               nutrients m ''carbs'' = Some c \<longrightarrow>
                 nutrients (high_glucose_meal rf m) ''carbs'' = Some (c * rf)
                 \<and> nutrients (high_glucose_meal rf m) ''protein''
                     = map_option (\<lambda>p. p * 1.1) (nutrients m ''protein'')
                 \<and> nutrients (high_glucose_meal rf m) ''fat'' = nutrients m ''fat''
                 \<and> nutrients (high_glucose_meal rf m) ''calories''
                     = Some (meal_get (high_glucose_meal rf m) ''protein'' 0 * 4
                             + meal_get (high_glucose_meal rf m) ''carbs'' 0 * 4
                             + meal_get (high_glucose_meal rf m) ''fat'' 0 * 9)
                 \<and> (0 < c \<longrightarrow> c * 0.7 < c * 0.8))"
proof -
  have t1: "adaptations (analyze_glucose_trends (recent_data now data1 7)) = [HIGH_GLUCOSE]"
    and t2: "adaptations (analyze_glucose_trends (recent_data now data2 7)) = [HIGH_GLUCOSE]"
    using assms by (simp_all add: glucose_adaptations)
  have s1: "adapt_for_high_glucose meals (analyze_biometric_trends now data1 7) profile
           = Inr (map (high_glucose_meal 0.8) meals, ReducedCarbohydrates 0.8 150)"
    using high_glucose_returns [OF ne1, of meals profile] max1 by simp
  have s2: "adapt_for_high_glucose meals (analyze_biometric_trends now data2 7) profile
           = Inr (map (high_glucose_meal 0.7) meals, ReducedCarbohydrates 0.7 170)"
    using high_glucose_returns [OF ne2, of meals profile] max2 by simp
  have body: "\<forall>m c rf.
               nutrients m ''carbs'' = Some c \<longrightarrow>
                 nutrients (high_glucose_meal rf m) ''carbs'' = Some (c * rf)
                 \<and> nutrients (high_glucose_meal rf m) ''protein''
                     = map_option (\<lambda>p. p * 1.1) (nutrients m ''protein'')
                 \<and> nutrients (high_glucose_meal rf m) ''fat'' = nutrients m ''fat''
                 \<and> nutrients (high_glucose_meal rf m) ''calories''
                     = Some (meal_get (high_glucose_meal rf m) ''protein'' 0 * 4
                             + meal_get (high_glucose_meal rf m) ''carbs'' 0 * 4
                             + meal_get (high_glucose_meal rf m) ''fat'' 0 * 9)
                 \<and> (0 < c \<longrightarrow> c * 0.7 < c * 0.8)"
    using high_glucose_meal_entries
    by (auto simp: macro_consistent_def)
  show ?thesis
    using s1 s2 body by (simp add: analysis_adaptations t1 t2)
qed

theorem high_glucose_rule_is_monotone_witness:
  "glucose_values (recent_data 1
      [(BiometricData 0)\<lparr>glucose_mg_dl := Some 95\<rparr>,
       (BiometricData 1)\<lparr>glucose_mg_dl := Some 150\<rparr>] 7) = [95, 150]
   \<and> glucose_values (recent_data 1
      [(BiometricData 0)\<lparr>glucose_mg_dl := Some 95\<rparr>,
       (BiometricData 1)\<lparr>glucose_mg_dl := Some 170\<rparr>] 7) = [95, 170]
   \<and> np_max (glucose_values (recent_data 1
      [(BiometricData 0)\<lparr>glucose_mg_dl := Some 95\<rparr>,
       (BiometricData 1)\<lparr>glucose_mg_dl := Some 150\<rparr>] 7)) = 150
   \<and> np_max (glucose_values (recent_data 1
      [(BiometricData 0)\<lparr>glucose_mg_dl := Some 95\<rparr>,
       (BiometricData 1)\<lparr>glucose_mg_dl := Some 170\<rparr>] 7)) = 170
   \<and> map_sum id (\<lambda>r. (map (\<lambda>m. (nutrients m ''carbs'', nutrients m ''protein'',
                                   nutrients m ''calories'')) (fst r), snd r))
       (adapt_meal_plan 1
          [\<lparr>meal_type = ''lunch'', items = [''Brown Rice''],
            nutrients = [''calories'' \<mapsto> 444, ''protein'' \<mapsto> 10.4, ''carbs'' \<mapsto> 92,
                         ''fat'' \<mapsto> 3.6]\<rparr>]
          \<lparr>age = 32, sex = ''male'', weight_kg = 75, height_cm = 180,
           activity_level = MODERATELY_ACTIVE,
           preferences = \<lparr>allergies = [], dislikes = [], dietary_restrictions = []\<rparr>\<rparr>
          [(BiometricData 0)\<lparr>glucose_mg_dl := Some 95\<rparr>,
           (BiometricData 1)\<lparr>glucose_mg_dl := Some 150\<rparr>])
     = Inr ([(Some 73.6, Some 11.44, Some 372.56)], [ReducedCarbohydrates 0.8 150])
   \<and> map_sum id (\<lambda>r. (map (\<lambda>m. (nutrients m ''carbs'', nutrients m ''protein'',
                                   nutrients m ''calories'')) (fst r), snd r))
       (adapt_meal_plan 1
          [\<lparr>meal_type = ''lunch'', items = [''Brown Rice''],
            nutrients = [''calories'' \<mapsto> 444, ''protein'' \<mapsto> 10.4, ''carbs'' \<mapsto> 92,
                         ''fat'' \<mapsto> 3.6]\<rparr>]
          \<lparr>age = 32, sex = ''male'', weight_kg = 75, height_cm = 180,
           activity_level = MODERATELY_ACTIVE,
           preferences = \<lparr>allergies = [], dislikes = [], dietary_restrictions = []\<rparr>\<rparr>
          [(BiometricData 0)\<lparr>glucose_mg_dl := Some 95\<rparr>,
           (BiometricData 1)\<lparr>glucose_mg_dl := Some 170\<rparr>])
     = Inr ([(Some 64.4, Some 11.44, Some 335.76)], [ReducedCarbohydrates 0.7 170])"
proof -
  have g1: "glucose_values (recent_data 1
      [(BiometricData 0)\<lparr>glucose_mg_dl := Some 95\<rparr>,
       (BiometricData 1)\<lparr>glucose_mg_dl := Some 150\<rparr>] 7) = [95, 150]"
    by (simp add: analyzer_eval)
  have g2: "glucose_values (recent_data 1
      [(BiometricData 0)\<lparr>glucose_mg_dl := Some 95\<rparr>,
       (BiometricData 1)\<lparr>glucose_mg_dl := Some 170\<rparr>] 7) = [95, 170]"
    by (simp add: analyzer_eval)
  have n1: "glucose_values (recent_data 1
      [(BiometricData 0)\<lparr>glucose_mg_dl := Some 95\<rparr>,
       (BiometricData 1)\<lparr>glucose_mg_dl := Some 150\<rparr>] 7) \<noteq> []"
    by (simp add: g1)
  have n2: "glucose_values (recent_data 1
      [(BiometricData 0)\<lparr>glucose_mg_dl := Some 95\<rparr>,
       (BiometricData 1)\<lparr>glucose_mg_dl := Some 170\<rparr>] 7) \<noteq> []"
    by (simp add: g2)
  have h1: "np_max (glucose_values (recent_data 1
      [(BiometricData 0)\<lparr>glucose_mg_dl := Some 95\<rparr>,
       (BiometricData 1)\<lparr>glucose_mg_dl := Some 150\<rparr>] 7)) = 150"
    by (simp add: analyzer_eval)
  have h2: "np_max (glucose_values (recent_data 1
      [(BiometricData 0)\<lparr>glucose_mg_dl := Some 95\<rparr>,
       (BiometricData 1)\<lparr>glucose_mg_dl := Some 170\<rparr>] 7)) = 170"
    by (simp add: analyzer_eval)
  show ?thesis
    using g1 g2 h1 h2 high_glucose_rule_is_monotone [OF n1 h1 n2 h2, where
          meals = "[\<lparr>meal_type = ''lunch'', items = [''Brown Rice''],
            nutrients = [''calories'' \<mapsto> 444, ''protein'' \<mapsto> 10.4, ''carbs'' \<mapsto> 92,
                         ''fat'' \<mapsto> 3.6]\<rparr>]"
          and profile = "\<lparr>age = 32, sex = ''male'', weight_kg = 75, height_cm = 180,
           activity_level = MODERATELY_ACTIVE,
           preferences = \<lparr>allergies = [], dislikes = [], dietary_restrictions = []\<rparr>\<rparr>"]
    by (simp add: analyzer_eval strategy_eval polyfit_slope_def)
qed

section \<open>The stress rule\<close>

lemma apply_adaptations_append:
  "apply_adaptations (xs @ ys) a p st
     = (case apply_adaptations xs a p st of
          Inl e \<Rightarrow> Inl e
        | Inr st' \<Rightarrow> apply_adaptations ys a p st')"
  by (induction xs a p st rule: apply_adaptations.induct)
     (auto split: option.splits sum.splits)

lemma apply_adaptations_split:
  assumes "apply_adaptations pre a p st = Inr st1"
    and "apply_adaptations mid a p st1 = Inr st2"
  shows "apply_adaptations (pre @ mid @ post) a p st = apply_adaptations post a p st2"
  using assms by (simp add: apply_adaptations_append)

lemma high_stress_twice_step:
  assumes "hr_values (recent_data now data 7) \<noteq> []"
  shows "apply_adaptations [HIGH_STRESS, HIGH_STRESS] (analyze_biometric_trends now data 7)
           profile (ms, ex)
         = Inr (map (scale_nutrients 0.95) (map (scale_nutrients 0.95) ms),
                ex @ [AdjustedForStress (np_mean (hr_values (recent_data now data 7))),
                      AdjustedForStress (np_mean (hr_values (recent_data now data 7)))])"
  by (simp add: high_stress_returns [OF assms])

lemma early_tags_return:
  "\<exists>ms ex. apply_adaptations
              (adaptations (analyze_glucose_trends (recent_data now data 7))
               @ adaptations (analyze_activity_trends (recent_data now data 7))
               @ adaptations (analyze_sleep_trends (recent_data now data 7)))
              (analyze_biometric_trends now data 7) profile (meals, [])
            = Inr (ms, ex)"
  by (simp add: glucose_adaptations activity_adaptations sleep_adaptations
        high_glucose_returns low_activity_returns poor_sleep_returns)

text \<open>
  C5. When the heart rates in the analysis window average above 100 bpm and their standard
  deviation exceeds 20 bpm, the heart-rate analysis emits \<^verbatim>\<open>HIGH_STRESS\<close> twice, the tag
  occurs exactly twice in the analysis, after the glucose, activity and sleep tags and
  before the weight tag, and \<^verbatim>\<open>adapt_meal_plan\<close> runs the stress strategy twice in a row on
  the meals the earlier strategies returned: every present entry among calories, protein,
  carbs and fat is multiplied by \<open>0.95\<close> twice, \<open>0.9025\<close> in all, and the explanation is
  appended twice.
\<close>

theorem high_stress_applied_twice:
  assumes ne: "hr_values (recent_data now data 7) \<noteq> []"
    and "np_mean (hr_values (recent_data now data 7)) > 100"
    and "np_std (hr_values (recent_data now data 7)) > 20"
  shows "adaptations (analyze_heart_rate_trends (recent_data now data 7))
           = [HIGH_STRESS, HIGH_STRESS]
         \<and> adaptations_needed (analyze_biometric_trends now data 7)
           = (adaptations (analyze_glucose_trends (recent_data now data 7))
              @ adaptations (analyze_activity_trends (recent_data now data 7))
              @ adaptations (analyze_sleep_trends (recent_data now data 7)))
             @ [HIGH_STRESS, HIGH_STRESS]
             @ adaptations (analyze_weight_trends (recent_data now data 7))
         \<and> count_list (adaptations_needed (analyze_biometric_trends now data 7)) HIGH_STRESS = 2
         \<and> (\<exists>ms ex.
               apply_adaptations
                 (adaptations (analyze_glucose_trends (recent_data now data 7))
                  @ adaptations (analyze_activity_trends (recent_data now data 7))
                  @ adaptations (analyze_sleep_trends (recent_data now data 7)))
                 (analyze_biometric_trends now data 7) profile (meals, [])
               = Inr (ms, ex)
             \<and> adapt_meal_plan now meals profile data
               = apply_adaptations
                   (adaptations (analyze_weight_trends (recent_data now data 7)))
                   (analyze_biometric_trends now data 7) profile
                   (map (scale_nutrients 0.95) (map (scale_nutrients 0.95) ms),
                    ex @ [AdjustedForStress (np_mean (hr_values (recent_data now data 7))),
                          AdjustedForStress (np_mean (hr_values (recent_data now data 7)))]))
         \<and> (\<forall>m k. nutrients (scale_nutrients 0.95 (scale_nutrients 0.95 m)) k
                    = (if k \<in> {''calories'', ''protein'', ''carbs'', ''fat''}
                       then map_option (\<lambda>v. v * 0.9025) (nutrients m k)
                       else nutrients m k))"
proof -
  let ?rd = "recent_data now data 7"
  let ?a = "analyze_biometric_trends now data 7"
  let ?pre = "adaptations (analyze_glucose_trends ?rd)
              @ adaptations (analyze_activity_trends ?rd)
              @ adaptations (analyze_sleep_trends ?rd)"
  let ?post = "adaptations (analyze_weight_trends ?rd)"
  let ?e = "AdjustedForStress (np_mean (hr_values ?rd))"
  have hr: "adaptations (analyze_heart_rate_trends ?rd) = [HIGH_STRESS, HIGH_STRESS]"
    using assms ne by (simp add: heart_rate_adaptations)
  have tags: "adaptations_needed ?a = ?pre @ [HIGH_STRESS, HIGH_STRESS] @ ?post"
    by (simp add: analysis_adaptations hr)
  have cnt: "count_list (adaptations_needed ?a) HIGH_STRESS = 2"
    unfolding tags
    by (simp add: glucose_adaptations activity_adaptations sleep_adaptations weight_adaptations)
  obtain ms ex where pre: "apply_adaptations ?pre ?a profile (meals, []) = Inr (ms, ex)"
    using early_tags_return by blast
  have "adapt_meal_plan now meals profile data
          = apply_adaptations (?pre @ [HIGH_STRESS, HIGH_STRESS] @ ?post) ?a profile (meals, [])"
    unfolding adapt_meal_plan_def tags [symmetric] using tags by (simp add: Let_def)
  also have "\<dots> = apply_adaptations ?post ?a profile
                     (map (scale_nutrients 0.95) (map (scale_nutrients 0.95) ms), ex @ [?e, ?e])"
    by (rule apply_adaptations_split [OF pre high_stress_twice_step [OF ne]])
  finally have run: "adapt_meal_plan now meals profile data
      = apply_adaptations ?post ?a profile
          (map (scale_nutrients 0.95) (map (scale_nutrients 0.95) ms), ex @ [?e, ?e])" .
  have twice: "\<forall>m k. nutrients (scale_nutrients 0.95 (scale_nutrients 0.95 m)) k
                    = (if k \<in> {''calories'', ''protein'', ''carbs'', ''fat''}
                       then map_option (\<lambda>v. v * 0.9025) (nutrients m k)
                       else nutrients m k)"
    by (auto simp: scale_nutrients_entries option.map_comp comp_def intro!: option.map_cong)
  from hr tags cnt pre run twice show ?thesis by blast
qed

theorem high_stress_applied_twice_witness:
  "hr_values (recent_data 1
      [(BiometricData 0)\<lparr>heart_rate := Some 60\<rparr>, (BiometricData 1)\<lparr>heart_rate := Some 160\<rparr>]
      7) = [60, 160]
   \<and> np_mean (hr_values (recent_data 1
      [(BiometricData 0)\<lparr>heart_rate := Some 60\<rparr>, (BiometricData 1)\<lparr>heart_rate := Some 160\<rparr>]
      7)) > 100
   \<and> np_std (hr_values (recent_data 1
      [(BiometricData 0)\<lparr>heart_rate := Some 60\<rparr>, (BiometricData 1)\<lparr>heart_rate := Some 160\<rparr>]
      7)) > 20
   \<and> adaptations_needed (analyze_biometric_trends 1
      [(BiometricData 0)\<lparr>heart_rate := Some 60\<rparr>, (BiometricData 1)\<lparr>heart_rate := Some 160\<rparr>]
      7) = [HIGH_STRESS, HIGH_STRESS]
   \<and> map_sum id (\<lambda>r. (map (\<lambda>m. nutrients m ''calories'') (fst r), snd r))
       (adapt_meal_plan 1
          [\<lparr>meal_type = ''lunch'', items = [''Brown Rice''],
            nutrients = [''calories'' \<mapsto> 444, ''protein'' \<mapsto> 10.4, ''carbs'' \<mapsto> 92,
                         ''fat'' \<mapsto> 3.6]\<rparr>]
          \<lparr>age = 32, sex = ''male'', weight_kg = 75, height_cm = 180,
           activity_level = MODERATELY_ACTIVE,
           preferences = \<lparr>allergies = [], dislikes = [], dietary_restrictions = []\<rparr>\<rparr>
          [(BiometricData 0)\<lparr>heart_rate := Some 60\<rparr>,
           (BiometricData 1)\<lparr>heart_rate := Some 160\<rparr>])
     = Inr ([Some 400.71], [AdjustedForStress 110, AdjustedForStress 110])"
proof -
  have g: "hr_values (recent_data 1
      [(BiometricData 0)\<lparr>heart_rate := Some 60\<rparr>, (BiometricData 1)\<lparr>heart_rate := Some 160\<rparr>]
      7) = [60, 160]"
    by (simp add: analyzer_eval)
  have n: "hr_values (recent_data 1
      [(BiometricData 0)\<lparr>heart_rate := Some 60\<rparr>, (BiometricData 1)\<lparr>heart_rate := Some 160\<rparr>]
      7) \<noteq> []"
    by (simp add: g)
  have h1: "np_mean (hr_values (recent_data 1
      [(BiometricData 0)\<lparr>heart_rate := Some 60\<rparr>, (BiometricData 1)\<lparr>heart_rate := Some 160\<rparr>]
      7)) > 100"
    by (simp add: analyzer_eval)
  have h2: "np_std (hr_values (recent_data 1
      [(BiometricData 0)\<lparr>heart_rate := Some 60\<rparr>, (BiometricData 1)\<lparr>heart_rate := Some 160\<rparr>]
      7)) > 20"
    by (simp add: analyzer_eval np_std_gt_iff power2_eq_square)
  show ?thesis
    using g h1 h2 high_stress_applied_twice [OF n h1 h2, where
          meals = "[\<lparr>meal_type = ''lunch'', items = [''Brown Rice''],
            nutrients = [''calories'' \<mapsto> 444, ''protein'' \<mapsto> 10.4, ''carbs'' \<mapsto> 92,
                         ''fat'' \<mapsto> 3.6]\<rparr>]"
          and profile = "\<lparr>age = 32, sex = ''male'', weight_kg = 75, height_cm = 180,
           activity_level = MODERATELY_ACTIVE,
           preferences = \<lparr>allergies = [], dislikes = [], dietary_restrictions = []\<rparr>\<rparr>"]
    by (simp add: analyzer_eval strategy_eval np_std_gt_iff power2_eq_square)
qed

section \<open>The adaptation engine writes only its own copies\<close>

subsection \<open>Loops over addresses\<close>

lemma update_each_length [simp]: "length (update_each body refs s) = length s"
  unfolding update_each_def by (induction refs arbitrary: s) simp_all

lemma update_each_other:
  "a \<notin> set refs \<Longrightarrow> update_each body refs s ! a = s ! a"
  unfolding update_each_def by (induction refs arbitrary: s) auto

lemma update_each_Cons:
  "update_each body (r # refs) s = update_each body refs (s[r := body (s ! r)])"
  by (simp add: update_each_def)

lemma update_each_map:
  assumes "distinct refs" and "\<forall>r\<in>set refs. r < length s"
  shows "map ((!) (update_each body refs s)) refs = map body (map ((!) s) refs)"
  using assms
proof (induction refs arbitrary: s)
  case Nil
  then show ?case by simp
next
  case (Cons r refs)
  let ?s = "s[r := body (s ! r)]"
  have r: "r \<notin> set refs" "r < length s" using Cons.prems by auto
  have same: "map ((!) ?s) refs = map ((!) s) refs"
    using r by (auto simp: nth_list_update)
  have IH: "map ((!) (update_each body refs ?s)) refs = map body (map ((!) ?s) refs)"
    using Cons.prems by (intro Cons.IH) auto
  have hd: "update_each body refs ?s ! r = body (s ! r)"
    using r by (simp add: update_each_other)
  show ?case
    by (simp add: update_each_Cons hd IH same)
qed

lemma imul_at_frame:
  "imul_at r k f s = (s', out) \<Longrightarrow> length s' = length s \<and> (\<forall>a. a \<noteq> r \<longrightarrow> s' ! a = s ! a)"
  by (auto simp: imul_at_def split: option.splits)

lemma weight_loss_at_frame:
  assumes "weight_loss_at r s = (s', out)"
  shows "length s' = length s \<and> (\<forall>a. a \<noteq> r \<longrightarrow> s' ! a = s ! a)"
proof -
  obtain s1 o1 where 1: "imul_at r ''protein'' 1.1 s = (s1, o1)" by fastforce
  obtain s2 o2 where 2: "imul_at r ''calories'' 1.05 s1 = (s2, o2)" by fastforce
  obtain s3 o3 where 3: "imul_at r ''carbs'' 1.02 s2 = (s3, o3)" by fastforce
  obtain s4 o4 where 4: "imul_at r ''fat'' 1.02 s3 = (s4, o4)" by fastforce
  note f = imul_at_frame [OF 1] imul_at_frame [OF 2] imul_at_frame [OF 3] imul_at_frame [OF 4]
  have "s' = s1 \<or> s' = s2 \<or> s' = s3 \<or> s' = s4"
    using assms 1 2 3 4 by (auto simp: weight_loss_at_def split: option.splits)
  then show ?thesis using f by auto
qed

lemma for_each_at_frame:
  assumes "\<And>r s s' out. body r s = (s', out)
             \<Longrightarrow> length s' = length s \<and> (\<forall>a. a \<noteq> r \<longrightarrow> s' ! a = s ! a)"
    and "for_each_at body refs s = (s', out)"
  shows "length s' = length s \<and> (\<forall>a. a \<notin> set refs \<longrightarrow> s' ! a = s ! a)"
  using assms(2)
proof (induction refs arbitrary: s)
  case Nil
  then show ?case by simp
next
  case (Cons r refs)
  obtain s1 o1 where b: "body r s = (s1, o1)" by fastforce
  note f1 = assms(1) [OF b]
  show ?case
  proof (cases o1)
    case None
    with Cons.prems b have "for_each_at body refs s1 = (s', out)" by simp
    from Cons.IH [OF this] f1 show ?thesis by auto
  next
    case (Some e)
    with Cons.prems b have "s' = s1" by simp
    with f1 show ?thesis by auto
  qed
qed

subsection \<open>The store model against the value model\<close>

lemma imul_at_imul:
  "r < length s \<Longrightarrow>
     imul_at r k f s
       = (case imul (s ! r) k f of Inl e \<Rightarrow> (s, Some e) | Inr m \<Rightarrow> (s[r := m], None))"
  by (simp add: imul_at_def imul_def split: option.splits)

lemma weight_loss_at_refines:
  assumes "r < length s"
  shows "case weight_loss_meal (s ! r) of
           Inr m \<Rightarrow> weight_loss_at r s = (s[r := m], None)
         | Inl e \<Rightarrow> snd (weight_loss_at r s) = Some e"
  using assms
  by (auto simp: weight_loss_at_def weight_loss_meal_def imul_at_imul split: sum.splits)

lemma for_each_at_refines:
  assumes "distinct refs" and "\<forall>r\<in>set refs. r < length s"
  shows "case for_each weight_loss_meal (map ((!) s) refs) of
           Inr ms \<Rightarrow> (\<exists>s'. for_each_at weight_loss_at refs s = (s', None)
                          \<and> map ((!) s') refs = ms)
         | Inl e \<Rightarrow> snd (for_each_at weight_loss_at refs s) = Some e"
  using assms
proof (induction refs arbitrary: s)
  case Nil
  then show ?case by simp
next
  case (Cons r refs)
  have r: "r \<notin> set refs" "r < length s" using Cons.prems by auto
  note step = weight_loss_at_refines [OF r(2)]
  show ?case
  proof (cases "weight_loss_meal (s ! r)")
    case (Inl e)
    with step have "snd (weight_loss_at r s) = Some e" by simp
    then have "snd (for_each_at weight_loss_at (r # refs) s) = Some e"
      by (cases "weight_loss_at r s") auto
    with Inl show ?thesis by simp
  next
    case (Inr m)
    let ?s = "s[r := m]"
    from step Inr have w: "weight_loss_at r s = (?s, None)" by simp
    have same: "map ((!) ?s) refs = map ((!) s) refs"
      using r by (auto simp: nth_list_update)
    have IH: "case for_each weight_loss_meal (map ((!) ?s) refs) of
           Inr ms \<Rightarrow> (\<exists>s'. for_each_at weight_loss_at refs ?s = (s', None)
                          \<and> map ((!) s') refs = ms)
         | Inl e \<Rightarrow> snd (for_each_at weight_loss_at refs ?s) = Some e"
      using Cons.prems by (intro Cons.IH) auto
    show ?thesis
    proof (cases "for_each weight_loss_meal (map ((!) s) refs)")
      case (Inl e)
      with IH same have "snd (for_each_at weight_loss_at refs ?s) = Some e" by simp
      with Inl Inr w show ?thesis by simp
    next
      case inr: (Inr ms)
      with IH same obtain s' where
        s': "for_each_at weight_loss_at refs ?s = (s', None)" "map ((!) s') refs = ms"
        by auto
      have fr: "length s' = length ?s \<and> (\<forall>a. a \<notin> set refs \<longrightarrow> s' ! a = ?s ! a)"
        by (rule for_each_at_frame [OF weight_loss_at_frame s'(1)])
      then have "s' ! r = m" using r by simp
      with inr Inr w s' show ?thesis by simp
    qed
  qed
qed

text \<open>Each strategy on the store: what it leaves alone, and its result read back as values.\<close>

lemma high_glucose_store:
  assumes "adapt_for_high_glucose_store refs a p s = (s', out)"
  shows "length s' = length s \<and> (\<forall>x. x \<notin> set refs \<longrightarrow> s' ! x = s ! x)
         \<and> (\<forall>refs' e. out = Inr (refs', e) \<longrightarrow> refs' = refs)
         \<and> (distinct refs \<and> (\<forall>r\<in>set refs. r < length s) \<longrightarrow>
              adapt_for_high_glucose (map ((!) s) refs) a p
                = map_sum id (\<lambda>(refs', e). (map ((!) s') refs', e)) out)"
  using assms
  by (auto simp: adapt_for_high_glucose_store_def adapt_for_high_glucose_def Let_def
        update_each_other update_each_map split: sum.splits)

lemma low_activity_store:
  assumes "adapt_for_low_activity_store refs a p s = (s', out)"
  shows "length s' = length s \<and> (\<forall>x. x \<notin> set refs \<longrightarrow> s' ! x = s ! x)
         \<and> (\<forall>refs' e. out = Inr (refs', e) \<longrightarrow> refs' = refs)
         \<and> (distinct refs \<and> (\<forall>r\<in>set refs. r < length s) \<longrightarrow>
              adapt_for_low_activity (map ((!) s) refs) a p
                = map_sum id (\<lambda>(refs', e). (map ((!) s') refs', e)) out)"
  using assms
  by (auto simp: adapt_for_low_activity_store_def adapt_for_low_activity_def Let_def
        update_each_other update_each_map split: sum.splits)

lemma poor_sleep_store:
  assumes "adapt_for_poor_sleep_store refs a p s = (s', out)"
  shows "length s' = length s \<and> (\<forall>x. x \<notin> set refs \<longrightarrow> s' ! x = s ! x)
         \<and> (\<forall>refs' e. out = Inr (refs', e) \<longrightarrow> refs' = refs)
         \<and> (distinct refs \<and> (\<forall>r\<in>set refs. r < length s) \<longrightarrow>
              adapt_for_poor_sleep (map ((!) s) refs) a p
                = map_sum id (\<lambda>(refs', e). (map ((!) s') refs', e)) out)"
  using assms
  by (auto simp: adapt_for_poor_sleep_store_def adapt_for_poor_sleep_def Let_def
        update_each_other update_each_map split: sum.splits)

lemma high_stress_store:
  assumes "adapt_for_high_stress_store refs a p s = (s', out)"
  shows "length s' = length s \<and> (\<forall>x. x \<notin> set refs \<longrightarrow> s' ! x = s ! x)
         \<and> (\<forall>refs' e. out = Inr (refs', e) \<longrightarrow> refs' = refs)
         \<and> (distinct refs \<and> (\<forall>r\<in>set refs. r < length s) \<longrightarrow>
              adapt_for_high_stress (map ((!) s) refs) a p
                = map_sum id (\<lambda>(refs', e). (map ((!) s') refs', e)) out)"
  using assms
  by (auto simp: adapt_for_high_stress_store_def adapt_for_high_stress_def Let_def
        update_each_other update_each_map split: sum.splits)

lemma weight_change_store:
  assumes "adapt_for_weight_change_store refs a p s = (s', out)"
  shows "length s' = length s \<and> (\<forall>x. x \<notin> set refs \<longrightarrow> s' ! x = s ! x)
         \<and> (\<forall>refs' e. out = Inr (refs', e) \<longrightarrow> refs' = refs)
         \<and> (distinct refs \<and> (\<forall>r\<in>set refs. r < length s) \<longrightarrow>
              adapt_for_weight_change (map ((!) s) refs) a p
                = map_sum id (\<lambda>(refs', e). (map ((!) s') refs', e)) out)"
proof (cases "trend_of a ''weight''")
  case (Inl e)
  with assms show ?thesis
    by (auto simp: adapt_for_weight_change_store_def adapt_for_weight_change_def)
next
  case info: (Inr weight_info)
  show ?thesis
  proof (cases "number_of weight_info ''total_change_kg''")
    case (Inl e)
    with assms info show ?thesis
      by (auto simp: adapt_for_weight_change_store_def adapt_for_weight_change_def)
  next
    case (Inr wc)
    consider (gain) "wc > 1" | (loss) "\<not> wc > 1" "wc < - 1" | (none) "\<not> wc > 1" "\<not> wc < - 1"
      by blast
    then show ?thesis
    proof cases
      case gain
      with assms info Inr show ?thesis
        by (auto simp: adapt_for_weight_change_store_def adapt_for_weight_change_def
              update_each_other update_each_map)
    next
      case none
      with assms info Inr show ?thesis
        by (auto simp: adapt_for_weight_change_store_def adapt_for_weight_change_def)
    next
      case loss
      obtain s1 o1 where fe: "for_each_at weight_loss_at refs s = (s1, o1)" by fastforce
      note fr = for_each_at_frame [OF weight_loss_at_frame fe]
      have out: "s' = s1"
        "out = (case o1 of Some e \<Rightarrow> Inl e
                | None \<Rightarrow> Inr (refs, IncreasedPortionsWeightLoss \<bar>wc\<bar>))"
        using assms info Inr loss fe
        by (auto simp: adapt_for_weight_change_store_def split: option.splits)
      have val: "adapt_for_weight_change (map ((!) s) refs) a p
                   = (case for_each weight_loss_meal (map ((!) s) refs) of
                        Inl e \<Rightarrow> Inl e
                      | Inr ms \<Rightarrow> Inr (ms, IncreasedPortionsWeightLoss \<bar>wc\<bar>))"
        using info Inr loss by (simp add: adapt_for_weight_change_def)
      have ref: "distinct refs \<and> (\<forall>r\<in>set refs. r < length s) \<longrightarrow>
              adapt_for_weight_change (map ((!) s) refs) a p
                = map_sum id (\<lambda>(refs', e). (map ((!) s') refs', e)) out"
      proof
        assume ok: "distinct refs \<and> (\<forall>r\<in>set refs. r < length s)"
        then have r: "case for_each weight_loss_meal (map ((!) s) refs) of
           Inr ms \<Rightarrow> (\<exists>s'. for_each_at weight_loss_at refs s = (s', None)
                          \<and> map ((!) s') refs = ms)
         | Inl e \<Rightarrow> snd (for_each_at weight_loss_at refs s) = Some e"
          by (intro for_each_at_refines) auto
        show "adapt_for_weight_change (map ((!) s) refs) a p
                = map_sum id (\<lambda>(refs', e). (map ((!) s') refs', e)) out"
          using r fe unfolding val out
          by (auto split: sum.splits option.splits)
      qed
      show ?thesis using fr out ref by (auto split: option.splits)
    qed
  qed
qed

lemma strategy_store:
  assumes "adaptation_strategies_store tag = Some S"
    and "S refs a p s = (s', out)"
  shows "length s' = length s \<and> (\<forall>x. x \<notin> set refs \<longrightarrow> s' ! x = s ! x)
         \<and> (\<forall>refs' e. out = Inr (refs', e) \<longrightarrow> refs' = refs)
         \<and> (\<exists>P. adaptation_strategies tag = Some P
                \<and> (distinct refs \<and> (\<forall>r\<in>set refs. r < length s) \<longrightarrow>
                     P (map ((!) s) refs) a p
                       = map_sum id (\<lambda>(refs', e). (map ((!) s') refs', e)) out))"
proof (cases tag)
  case HIGH_GLUCOSE
  with assms show ?thesis using high_glucose_store [of refs a p s s' out] by simp
next
  case LOW_ACTIVITY
  with assms show ?thesis using low_activity_store [of refs a p s s' out] by simp
next
  case POOR_SLEEP
  with assms show ?thesis using poor_sleep_store [of refs a p s s' out] by simp
next
  case HIGH_STRESS
  with assms show ?thesis using high_stress_store [of refs a p s s' out] by simp
next
  case WEIGHT_CHANGE
  with assms show ?thesis using weight_change_store [of refs a p s s' out] by simp
qed (use assms in simp_all)

lemma strategies_agree:
  "(adaptation_strategies_store tag = None) = (adaptation_strategies tag = None)"
  by (cases tag) simp_all

lemma apply_adaptations_store_refines:
  assumes "apply_adaptations_store tags a p (refs, ex) s = (s', out)"
  shows "length s' = length s \<and> (\<forall>x. x \<notin> set refs \<longrightarrow> s' ! x = s ! x)
         \<and> (\<forall>refs' ex'. out = Inr (refs', ex') \<longrightarrow> refs' = refs)
         \<and> (distinct refs \<and> (\<forall>r\<in>set refs. r < length s) \<longrightarrow>
              apply_adaptations tags a p (map ((!) s) refs, ex)
                = map_sum id (\<lambda>(refs', ex'). (map ((!) s') refs', ex')) out)"
  using assms
proof (induction tags arbitrary: s ex)
  case Nil
  then show ?case by auto
next
  case (Cons tag tags)
  show ?case
  proof (cases "adaptation_strategies_store tag")
    case None
    then have n: "adaptation_strategies tag = None" using strategies_agree by simp
    from Cons.prems None have "apply_adaptations_store tags a p (refs, ex) s = (s', out)"
      by simp
    from Cons.IH [OF this] n show ?thesis by simp
  next
    case (Some S)
    obtain s1 o1 where step: "S refs a p s = (s1, o1)" by fastforce
    from strategy_store [OF Some step] obtain P where
      fr1: "length s1 = length s" "\<forall>x. x \<notin> set refs \<longrightarrow> s1 ! x = s ! x"
      and same: "\<forall>refs' e. o1 = Inr (refs', e) \<longrightarrow> refs' = refs"
      and P: "adaptation_strategies tag = Some P"
      and ref1: "distinct refs \<and> (\<forall>r\<in>set refs. r < length s) \<longrightarrow>
                  P (map ((!) s) refs) a p
                    = map_sum id (\<lambda>(refs', e). (map ((!) s1) refs', e)) o1"
      by blast
    show ?thesis
    proof (cases o1)
      case (Inl e)
      with Cons.prems Some step have "s' = s1" "out = Inl e" by simp_all
      with fr1 ref1 Inl P show ?thesis by auto
    next
      case (Inr res)
      obtain refs1 e where res: "res = (refs1, e)" by (cases res)
      with same Inr have refs1: "refs1 = refs" by simp
      let ?ex = "if e \<noteq> NoExplanation then ex @ [e] else ex"
      from Cons.prems Some step Inr res refs1
      have rest: "apply_adaptations_store tags a p (refs, ?ex) s1 = (s', out)" by simp
      note IH = Cons.IH [OF rest]
      have fr: "length s' = length s" "\<forall>x. x \<notin> set refs \<longrightarrow> s' ! x = s ! x"
        "\<forall>refs' ex'. out = Inr (refs', ex') \<longrightarrow> refs' = refs"
        using IH fr1 by simp_all
      have ref: "distinct refs \<and> (\<forall>r\<in>set refs. r < length s) \<longrightarrow>
              apply_adaptations (tag # tags) a p (map ((!) s) refs, ex)
                = map_sum id (\<lambda>(refs', ex'). (map ((!) s') refs', ex')) out"
      proof
        assume ok: "distinct refs \<and> (\<forall>r\<in>set refs. r < length s)"
        with ref1 Inr res refs1
        have p: "P (map ((!) s) refs) a p = Inr (map ((!) s1) refs, e)" by simp
        from ok fr1 have ok1: "distinct refs \<and> (\<forall>r\<in>set refs. r < length s1)" by simp
        with IH have "apply_adaptations tags a p (map ((!) s1) refs, ?ex)
                = map_sum id (\<lambda>(refs', ex'). (map ((!) s') refs', ex')) out" by blast
        with p P show "apply_adaptations (tag # tags) a p (map ((!) s) refs, ex)
                = map_sum id (\<lambda>(refs', ex'). (map ((!) s') refs', ex')) out"
          by simp
      qed
      from fr ref show ?thesis by (intro conjI)
    qed
  qed
qed

lemma copy_meals_result:
  assumes "\<forall>r\<in>set refs. r < length s"
  shows "copy_meals refs s
           = (s @ map ((!) s) refs, [length s ..< length s + length refs])"
  using assms
proof (induction refs arbitrary: s)
  case Nil
  then show ?case by simp
next
  case (Cons r refs)
  let ?s = "s @ [s ! r]"
  have valid: "\<forall>x\<in>set refs. x < length ?s" using Cons.prems by auto
  have same: "map ((!) ?s) refs = map ((!) s) refs"
    using Cons.prems by (auto simp: nth_append)
  have "[length s ..< length s + length (r # refs)]
          = length s # [length ?s ..< length ?s + length refs]"
    by (simp add: upt_rec)
  then show ?case
    by (simp add: dict_copy_def Cons.IH [OF valid] same)
qed

text \<open>
  C10. Whenever the analysis carries at least one adaptation tag, \<^verbatim>\<open>adapt_meal_plan\<close>
  allocates one new dict per input meal and writes to those only: after the call, whether it
  returned or raised, every dict that existed before it holds its original value, in
  particular every input meal dict, also when the caller's list names one dict twice.
  When the call returns, the returned list consists of the new dicts, none of them an input
  dict, and their values are the adapted meals of the value model.
\<close>

theorem adapt_meal_plan_writes_only_copies:
  assumes "\<forall>r\<in>set meals. r < length s"
    and "adaptations_needed (analyze_biometric_trends now data 7) \<noteq> []"
    and "adapt_meal_plan_store now meals profile data s = (s', out)"
  shows "length s' = length s + length meals
         \<and> (\<forall>x. x < length s \<longrightarrow> s' ! x = s ! x)
         \<and> map ((!) s') meals = map ((!) s) meals
         \<and> (\<forall>refs ex. out = Inr (refs, ex) \<longrightarrow>
               refs = [length s ..< length s + length meals]
               \<and> set refs \<inter> set meals = {}
               \<and> adapt_meal_plan now (map ((!) s) meals) profile data
                   = Inr (map ((!) s') refs, ex))
         \<and> (\<forall>e. out = Inl e \<longrightarrow>
               adapt_meal_plan now (map ((!) s) meals) profile data = Inl e)"
proof -
  let ?a = "analyze_biometric_trends now data 7"
  let ?s1 = "s @ map ((!) s) meals"
  let ?copies = "[length s ..< length s + length meals]"
  have run: "apply_adaptations_store (adaptations_needed ?a) ?a profile (?copies, []) ?s1
               = (s', out)"
    using assms(2,3) by (simp add: adapt_meal_plan_store_def copy_meals_result [OF assms(1)] Let_def)
  note r = apply_adaptations_store_refines [OF run]
  have ok: "distinct ?copies \<and> (\<forall>r\<in>set ?copies. r < length ?s1)" by simp
  have vals: "map ((!) ?s1) ?copies = map ((!) s) meals"
    by (auto simp: nth_append intro!: nth_equalityI)
  have len: "length s' = length s + length meals" using r by simp
  have old: "\<forall>x. x < length s \<longrightarrow> s' ! x = s ! x"
  proof (intro allI impI)
    fix x assume x: "x < length s"
    then have "x \<notin> set ?copies" by simp
    with r have "s' ! x = ?s1 ! x" by blast
    with x show "s' ! x = s ! x" by (simp add: nth_append)
  qed
  have inputs: "map ((!) s') meals = map ((!) s) meals"
    using old assms(1) by simp
  have pure: "adapt_meal_plan now (map ((!) s) meals) profile data
                 = map_sum id (\<lambda>(refs', ex'). (map ((!) s') refs', ex')) out"
    using r ok assms(2) by (simp add: adapt_meal_plan_def vals Let_def)
  have refs: "\<forall>refs ex. out = Inr (refs, ex) \<longrightarrow> refs = ?copies"
    using r by blast
  have disj: "set ?copies \<inter> set meals = {}"
    using assms(1) by auto
  show ?thesis
    using len old inputs pure refs disj by auto
qed

theorem adapt_meal_plan_writes_only_copies_witness:
  "list_all (\<lambda>r. r < length
       [\<lparr>meal_type = ''lunch'', items = [''Brown Rice''],
         nutrients = [''calories'' \<mapsto> 444, ''protein'' \<mapsto> 10.4, ''carbs'' \<mapsto> 92,
                      ''fat'' \<mapsto> 3.6]\<rparr>]) [0 :: nat, 0]
   \<and> adaptations_needed
       (analyze_biometric_trends 0 [(BiometricData 0)\<lparr>steps := Some 1000\<rparr>] 7)
     = [LOW_ACTIVITY]
   \<and> map (\<lambda>m. nutrients m ''calories'')
       (fst (adapt_meal_plan_store 0 [0, 0]
               \<lparr>age = 32, sex = ''male'', weight_kg = 75, height_cm = 180,
                activity_level = MODERATELY_ACTIVE,
                preferences = \<lparr>allergies = [], dislikes = [], dietary_restrictions = []\<rparr>\<rparr>
               [(BiometricData 0)\<lparr>steps := Some 1000\<rparr>]
               [\<lparr>meal_type = ''lunch'', items = [''Brown Rice''],
                 nutrients = [''calories'' \<mapsto> 444, ''protein'' \<mapsto> 10.4, ''carbs'' \<mapsto> 92,
                              ''fat'' \<mapsto> 3.6]\<rparr>]))
     = [Some 444, Some 377.4, Some 377.4]
   \<and> snd (adapt_meal_plan_store 0 [0, 0]
               \<lparr>age = 32, sex = ''male'', weight_kg = 75, height_cm = 180,
                activity_level = MODERATELY_ACTIVE,
                preferences = \<lparr>allergies = [], dislikes = [], dietary_restrictions = []\<rparr>\<rparr>
               [(BiometricData 0)\<lparr>steps := Some 1000\<rparr>]
               [\<lparr>meal_type = ''lunch'', items = [''Brown Rice''],
                 nutrients = [''calories'' \<mapsto> 444, ''protein'' \<mapsto> 10.4, ''carbs'' \<mapsto> 92,
                              ''fat'' \<mapsto> 3.6]\<rparr>])
     = Inr ([1, 2], [ReducedPortionsLowActivity 1000])
   \<and> snd (adapt_meal_plan_store 1 [0]
               \<lparr>age = 32, sex = ''male'', weight_kg = 75, height_cm = 180,
                activity_level = MODERATELY_ACTIVE,
                preferences = \<lparr>allergies = [], dislikes = [], dietary_restrictions = []\<rparr>\<rparr>
               [(BiometricData 0)\<lparr>bio_weight_kg := Some 80\<rparr>,
                (BiometricData 1)\<lparr>bio_weight_kg := Some 77\<rparr>]
               [\<lparr>meal_type = ''lunch'', items = [''Brown Rice''],
                 nutrients = [''calories'' \<mapsto> 444, ''protein'' \<mapsto> 10.4,
                              ''carbs'' \<mapsto> 92]\<rparr>])
     = Inl (KeyError ''fat'')
   \<and> map (\<lambda>m. nutrients m ''protein'')
        (fst (adapt_meal_plan_store 1 [0]
               \<lparr>age = 32, sex = ''male'', weight_kg = 75, height_cm = 180,
                activity_level = MODERATELY_ACTIVE,
                preferences = \<lparr>allergies = [], dislikes = [], dietary_restrictions = []\<rparr>\<rparr>
               [(BiometricData 0)\<lparr>bio_weight_kg := Some 80\<rparr>,
                (BiometricData 1)\<lparr>bio_weight_kg := Some 77\<rparr>]
               [\<lparr>meal_type = ''lunch'', items = [''Brown Rice''],
                 nutrients = [''calories'' \<mapsto> 444, ''protein'' \<mapsto> 10.4,
                              ''carbs'' \<mapsto> 92]\<rparr>]))
     = [Some 10.4, Some 11.44]"
proof -
  have h1: "\<forall>r\<in>set [0 :: nat, 0]. r < length
       [\<lparr>meal_type = ''lunch'', items = [''Brown Rice''],
         nutrients = [''calories'' \<mapsto> 444, ''protein'' \<mapsto> 10.4, ''carbs'' \<mapsto> 92,
                      ''fat'' \<mapsto> 3.6]\<rparr>]"
    by simp
  have a0: "analyze_biometric_trends 0 [(BiometricData 0)\<lparr>steps := Some 1000\<rparr>] 7
   = \<lparr>trends = [''glucose'' \<mapsto> no_data ''no_data'',
                 ''activity'' \<mapsto>
                    \<lparr>numbers = [''average_steps'' \<mapsto> 1000, ''minimum_steps'' \<mapsto> 1000,
                                ''consistency_score'' \<mapsto> 1],
                     status = Some ''sedentary'', trend = None,
                     alerts = [LowActivityDetected 1000], adaptations = [LOW_ACTIVITY]\<rparr>,
                 ''sleep'' \<mapsto> no_data ''no_data'',
                 ''heart_rate'' \<mapsto> no_data ''no_data'',
                 ''weight'' \<mapsto> no_data ''insufficient_data''],
       all_alerts = [LowActivityDetected 1000], adaptations_needed = [LOW_ACTIVITY],
       data_points = Some 1\<rparr>"
  by (simp add: analyze_biometric_trends_def recent_data_def empty_analysis_def
    record_trend_def sorted_by_timestamp_def timedelta_days_def analyze_glucose_trends_def
    analyze_activity_trends_def analyze_sleep_trends_def analyze_heart_rate_trends_def
    analyze_weight_trends_def glucose_values_def hr_values_def
    List.map_filter_simps BiometricData_def threshold_defs np_mean_def np_var_def np_std_def
    activity_status_classification_def no_data_def Let_def)
  have h2: "adaptations_needed
       (analyze_biometric_trends 0 [(BiometricData 0)\<lparr>steps := Some 1000\<rparr>] 7) \<noteq> []"
    by (simp add: a0)
  have t: "adaptations_needed
       (analyze_biometric_trends 0 [(BiometricData 0)\<lparr>steps := Some 1000\<rparr>] 7)
     = [LOW_ACTIVITY]"
    by (simp add: a0)
  have h3: "adapt_meal_plan_store 0 [0, 0]
               \<lparr>age = 32, sex = ''male'', weight_kg = 75, height_cm = 180,
                activity_level = MODERATELY_ACTIVE,
                preferences = \<lparr>allergies = [], dislikes = [], dietary_restrictions = []\<rparr>\<rparr>
               [(BiometricData 0)\<lparr>steps := Some 1000\<rparr>]
               [\<lparr>meal_type = ''lunch'', items = [''Brown Rice''],
                 nutrients = [''calories'' \<mapsto> 444, ''protein'' \<mapsto> 10.4, ''carbs'' \<mapsto> 92,
                              ''fat'' \<mapsto> 3.6]\<rparr>]
            = (fst (adapt_meal_plan_store 0 [0, 0]
               \<lparr>age = 32, sex = ''male'', weight_kg = 75, height_cm = 180,
                activity_level = MODERATELY_ACTIVE,
                preferences = \<lparr>allergies = [], dislikes = [], dietary_restrictions = []\<rparr>\<rparr>
               [(BiometricData 0)\<lparr>steps := Some 1000\<rparr>]
               [\<lparr>meal_type = ''lunch'', items = [''Brown Rice''],
                 nutrients = [''calories'' \<mapsto> 444, ''protein'' \<mapsto> 10.4, ''carbs'' \<mapsto> 92,
                              ''fat'' \<mapsto> 3.6]\<rparr>]),
               snd (adapt_meal_plan_store 0 [0, 0]
               \<lparr>age = 32, sex = ''male'', weight_kg = 75, height_cm = 180,
                activity_level = MODERATELY_ACTIVE,
                preferences = \<lparr>allergies = [], dislikes = [], dietary_restrictions = []\<rparr>\<rparr>
               [(BiometricData 0)\<lparr>steps := Some 1000\<rparr>]
               [\<lparr>meal_type = ''lunch'', items = [''Brown Rice''],
                 nutrients = [''calories'' \<mapsto> 444, ''protein'' \<mapsto> 10.4, ''carbs'' \<mapsto> 92,
                              ''fat'' \<mapsto> 3.6]\<rparr>]))"
    by simp
  have e1: "map (\<lambda>m. nutrients m ''calories'')
       (fst (adapt_meal_plan_store 0 [0, 0]
               \<lparr>age = 32, sex = ''male'', weight_kg = 75, height_cm = 180,
                activity_level = MODERATELY_ACTIVE,
                preferences = \<lparr>allergies = [], dislikes = [], dietary_restrictions = []\<rparr>\<rparr>
               [(BiometricData 0)\<lparr>steps := Some 1000\<rparr>]
               [\<lparr>meal_type = ''lunch'', items = [''Brown Rice''],
                 nutrients = [''calories'' \<mapsto> 444, ''protein'' \<mapsto> 10.4, ''carbs'' \<mapsto> 92,
                              ''fat'' \<mapsto> 3.6]\<rparr>]))
     = [Some 444, Some 377.4, Some 377.4]"
  by (simp add: adapt_meal_plan_store_def a0 adapt_for_low_activity_store_def dict_copy_def
          trend_of_def number_of_def Let_def update_each_def scale_nutrients_def setitem_def)
  have e2: "snd (adapt_meal_plan_store 0 [0, 0]
               \<lparr>age = 32, sex = ''male'', weight_kg = 75, height_cm = 180,
                activity_level = MODERATELY_ACTIVE,
                preferences = \<lparr>allergies = [], dislikes = [], dietary_restrictions = []\<rparr>\<rparr>
               [(BiometricData 0)\<lparr>steps := Some 1000\<rparr>]
               [\<lparr>meal_type = ''lunch'', items = [''Brown Rice''],
                 nutrients = [''calories'' \<mapsto> 444, ''protein'' \<mapsto> 10.4, ''carbs'' \<mapsto> 92,
                              ''fat'' \<mapsto> 3.6]\<rparr>])
     = Inr ([1, 2], [ReducedPortionsLowActivity 1000])"
  by (simp add: adapt_meal_plan_store_def a0 adapt_for_low_activity_store_def dict_copy_def
          trend_of_def number_of_def Let_def)
  have k1: "\<forall>r\<in>set [0 :: nat]. r < length
       [\<lparr>meal_type = ''lunch'', items = [''Brown Rice''],
         nutrients = [''calories'' \<mapsto> 444, ''protein'' \<mapsto> 10.4,
                      ''carbs'' \<mapsto> 92]\<rparr>]"
    by simp
  have a1: "analyze_biometric_trends 1
     [(BiometricData 0)\<lparr>bio_weight_kg := Some 80\<rparr>, (BiometricData 1)\<lparr>bio_weight_kg := Some 77\<rparr>] 7
   = \<lparr>trends = [''glucose'' \<mapsto> no_data ''no_data'',
                 ''activity'' \<mapsto> no_data ''no_data'',
                 ''sleep'' \<mapsto> no_data ''no_data'',
                 ''heart_rate'' \<mapsto> no_data ''no_data'',
                 ''weight'' \<mapsto>
                    \<lparr>numbers = [''total_change_kg'' \<mapsto> - 3, ''rate_per_day'' \<mapsto> - 1.5],
                     status = None, trend = Some ''decreasing'',
                     alerts = [SignificantWeightChange ''lost'' 3],
                     adaptations = [WEIGHT_CHANGE]\<rparr>],
       all_alerts = [SignificantWeightChange ''lost'' 3], adaptations_needed = [WEIGHT_CHANGE],
       data_points = Some 2\<rparr>"
    by (simp add: analyze_biometric_trends_def recent_data_def empty_analysis_def
          record_trend_def sorted_by_timestamp_def timedelta_days_def analyze_glucose_trends_def
          analyze_activity_trends_def analyze_sleep_trends_def analyze_heart_rate_trends_def
          analyze_weight_trends_def glucose_values_def hr_values_def List.map_filter_simps
          BiometricData_def threshold_defs np_mean_def calculate_trend_direction_def
          polyfit_slope_def no_data_def Let_def power2_eq_square)
  have k2: "adaptations_needed
       (analyze_biometric_trends 1
          [(BiometricData 0)\<lparr>bio_weight_kg := Some 80\<rparr>,
           (BiometricData 1)\<lparr>bio_weight_kg := Some 77\<rparr>] 7) \<noteq> []"
    by (simp add: a1)
  have k3: "adapt_meal_plan_store 1 [0]
               \<lparr>age = 32, sex = ''male'', weight_kg = 75, height_cm = 180,
                activity_level = MODERATELY_ACTIVE,
                preferences = \<lparr>allergies = [], dislikes = [], dietary_restrictions = []\<rparr>\<rparr>
               [(BiometricData 0)\<lparr>bio_weight_kg := Some 80\<rparr>,
                (BiometricData 1)\<lparr>bio_weight_kg := Some 77\<rparr>]
               [\<lparr>meal_type = ''lunch'', items = [''Brown Rice''],
                 nutrients = [''calories'' \<mapsto> 444, ''protein'' \<mapsto> 10.4,
                              ''carbs'' \<mapsto> 92]\<rparr>]
            = (fst (adapt_meal_plan_store 1 [0]
               \<lparr>age = 32, sex = ''male'', weight_kg = 75, height_cm = 180,
                activity_level = MODERATELY_ACTIVE,
                preferences = \<lparr>allergies = [], dislikes = [], dietary_restrictions = []\<rparr>\<rparr>
               [(BiometricData 0)\<lparr>bio_weight_kg := Some 80\<rparr>,
                (BiometricData 1)\<lparr>bio_weight_kg := Some 77\<rparr>]
               [\<lparr>meal_type = ''lunch'', items = [''Brown Rice''],
                 nutrients = [''calories'' \<mapsto> 444, ''protein'' \<mapsto> 10.4,
                              ''carbs'' \<mapsto> 92]\<rparr>]),
               snd (adapt_meal_plan_store 1 [0]
               \<lparr>age = 32, sex = ''male'', weight_kg = 75, height_cm = 180,
                activity_level = MODERATELY_ACTIVE,
                preferences = \<lparr>allergies = [], dislikes = [], dietary_restrictions = []\<rparr>\<rparr>
               [(BiometricData 0)\<lparr>bio_weight_kg := Some 80\<rparr>,
                (BiometricData 1)\<lparr>bio_weight_kg := Some 77\<rparr>]
               [\<lparr>meal_type = ''lunch'', items = [''Brown Rice''],
                 nutrients = [''calories'' \<mapsto> 444, ''protein'' \<mapsto> 10.4,
                              ''carbs'' \<mapsto> 92]\<rparr>]))"
    by simp
  have e3: "snd (adapt_meal_plan_store 1 [0]
               \<lparr>age = 32, sex = ''male'', weight_kg = 75, height_cm = 180,
                activity_level = MODERATELY_ACTIVE,
                preferences = \<lparr>allergies = [], dislikes = [], dietary_restrictions = []\<rparr>\<rparr>
               [(BiometricData 0)\<lparr>bio_weight_kg := Some 80\<rparr>,
                (BiometricData 1)\<lparr>bio_weight_kg := Some 77\<rparr>]
               [\<lparr>meal_type = ''lunch'', items = [''Brown Rice''],
                 nutrients = [''calories'' \<mapsto> 444, ''protein'' \<mapsto> 10.4,
                              ''carbs'' \<mapsto> 92]\<rparr>])
     = Inl (KeyError ''fat'')"
    by (simp add: adapt_meal_plan_store_def a1 adapt_for_weight_change_store_def dict_copy_def
          trend_of_def number_of_def Let_def weight_loss_at_def imul_at_def setitem_def)
  have e4: "map (\<lambda>m. nutrients m ''protein'')
        (fst (adapt_meal_plan_store 1 [0]
               \<lparr>age = 32, sex = ''male'', weight_kg = 75, height_cm = 180,
                activity_level = MODERATELY_ACTIVE,
                preferences = \<lparr>allergies = [], dislikes = [], dietary_restrictions = []\<rparr>\<rparr>
               [(BiometricData 0)\<lparr>bio_weight_kg := Some 80\<rparr>,
                (BiometricData 1)\<lparr>bio_weight_kg := Some 77\<rparr>]
               [\<lparr>meal_type = ''lunch'', items = [''Brown Rice''],
                 nutrients = [''calories'' \<mapsto> 444, ''protein'' \<mapsto> 10.4,
                              ''carbs'' \<mapsto> 92]\<rparr>]))
     = [Some 10.4, Some 11.44]"
    by (simp add: adapt_meal_plan_store_def a1 adapt_for_weight_change_store_def dict_copy_def
          trend_of_def number_of_def Let_def weight_loss_at_def imul_at_def setitem_def)
  show ?thesis
    using adapt_meal_plan_writes_only_copies [OF h1 h2 h3]
      adapt_meal_plan_writes_only_copies [OF k1 k2 k3] h1 t e1 e2 e3 e4
    unfolding list_all_iff by blast
qed

end
